theory Spec2Isabelle
  imports Complex_Main "HOL-Library.Word" "HOL-Library.AList" "HOL-Library.List_Lexorder"
begin

unbundle bit_operations_syntax

section \<open>Qt strings\<close>

text \<open>
  A \<open>QString\<close> is modelled as a \<^typ>\<open>string\<close>. Case mapping and white space are those
  of the ASCII range, which is all the adapter's literals use.
\<close>

definition toLower_char :: "char \<Rightarrow> char" where
  "toLower_char c =
     (case map_of (zip ''ABCDEFGHIJKLMNOPQRSTUVWXYZ'' ''abcdefghijklmnopqrstuvwxyz'') c of
        Some l \<Rightarrow> l
      | None \<Rightarrow> c)"

definition toLower :: "string \<Rightarrow> string" where
  "toLower s = map toLower_char s"

definition isSpace :: "char \<Rightarrow> bool" where
  "isSpace c = (c \<in> set [CHR 0x09, CHR 0x0A, CHR 0x0B, CHR 0x0C, CHR 0x0D, CHR 0x20])"

definition trimmed :: "string \<Rightarrow> string" where
  "trimmed s = rev (dropWhile isSpace (rev (dropWhile isSpace s)))"

text \<open>\<open>QString::compare(other, Qt::CaseInsensitive) == 0\<close>.\<close>

definition equalsCI :: "string \<Rightarrow> string \<Rightarrow> bool" where
  "equalsCI a b = (toLower a = toLower b)"

definition startsWith :: "string \<Rightarrow> string \<Rightarrow> bool" where
  "startsWith s p = (take (length p) s = p)"

definition endsWith :: "string \<Rightarrow> string \<Rightarrow> bool" where
  "endsWith s p = (length p \<le> length s \<and> drop (length s - length p) s = p)"

fun containsStr :: "string \<Rightarrow> string \<Rightarrow> bool" where
  "containsStr [] p = (p = [])"
| "containsStr (c # cs) p = (startsWith (c # cs) p \<or> containsStr cs p)"

text \<open>The key by which \<open>QStringList::sort(Qt::CaseInsensitive)\<close> orders its elements.\<close>

definition ciKey :: "string \<Rightarrow> nat list" where
  "ciKey s = map of_char (toLower s)"

section \<open>JSON values\<close>

text \<open>
  \<open>QJsonValue\<close> with its seven types. A \<open>double\<close> is carried as a \<^typ>\<open>real\<close>; a
  \<open>QJsonObject\<close> is an association list read with \<^const>\<open>map_of\<close> and written with
  \<^const>\<open>AList.update\<close>, so a key occurs once.
\<close>

datatype json =
    JUndefined
  | JNull
  | JBool bool
  | JNum real
  | JStr string
  | JArr "json list"
  | JObj "(string \<times> json) list"

type_synonym jobject = "(string \<times> json) list"

definition jvalue :: "jobject \<Rightarrow> string \<Rightarrow> json" where
  "jvalue obj k = (case map_of obj k of Some v \<Rightarrow> v | None \<Rightarrow> JUndefined)"

definition jcontains :: "jobject \<Rightarrow> string \<Rightarrow> bool" where
  "jcontains obj k = (map_of obj k \<noteq> None)"

definition jinsert :: "string \<Rightarrow> json \<Rightarrow> jobject \<Rightarrow> jobject" where
  "jinsert k v obj = AList.update k v obj"

fun isDouble :: "json \<Rightarrow> bool" where
  "isDouble (JNum r) = True"
| "isDouble v = False"

fun isString :: "json \<Rightarrow> bool" where
  "isString (JStr s) = True"
| "isString v = False"

fun isBool :: "json \<Rightarrow> bool" where
  "isBool (JBool b) = True"
| "isBool v = False"

fun isObject :: "json \<Rightarrow> bool" where
  "isObject (JObj obj) = True"
| "isObject v = False"

fun isArray :: "json \<Rightarrow> bool" where
  "isArray (JArr xs) = True"
| "isArray v = False"

fun toStringOr :: "string \<Rightarrow> json \<Rightarrow> string" where
  "toStringOr d (JStr s) = s"
| "toStringOr d v = d"

abbreviation toString :: "json \<Rightarrow> string" where
  "toString \<equiv> toStringOr []"

fun toBoolOr :: "bool \<Rightarrow> json \<Rightarrow> bool" where
  "toBoolOr d (JBool b) = b"
| "toBoolOr d v = d"

fun toDoubleOr :: "real \<Rightarrow> json \<Rightarrow> real" where
  "toDoubleOr d (JNum r) = r"
| "toDoubleOr d v = d"

abbreviation toDouble :: "json \<Rightarrow> real" where
  "toDouble \<equiv> toDoubleOr 0"

text \<open>
  \<open>QJsonValue::toInt(defaultValue)\<close>: the number when it is whole and fits a 32-bit
  \<open>int\<close>, the default otherwise.
\<close>

definition INT_MAX :: int where
  "INT_MAX = 2147483647"

definition INT_MIN :: int where
  "INT_MIN = - 2147483648"

fun toIntOr :: "int \<Rightarrow> json \<Rightarrow> int" where
  "toIntOr d (JNum r) =
     (if r = of_int \<lfloor>r\<rfloor> \<and> INT_MIN \<le> \<lfloor>r\<rfloor> \<and> \<lfloor>r\<rfloor> \<le> INT_MAX then \<lfloor>r\<rfloor> else d)"
| "toIntOr d v = d"

abbreviation toInt :: "json \<Rightarrow> int" where
  "toInt \<equiv> toIntOr 0"

fun toObject :: "json \<Rightarrow> jobject" where
  "toObject (JObj obj) = obj"
| "toObject v = []"

fun toArray :: "json \<Rightarrow> json list" where
  "toArray (JArr xs) = xs"
| "toArray v = []"

section \<open>Value codec\<close>

text \<open>\<open>qBound(min, val, max)\<close> is \<open>qMax(min, qMin(max, val))\<close>.\<close>

definition qBound :: "real \<Rightarrow> real \<Rightarrow> real \<Rightarrow> real" where
  "qBound lo v hi = max lo (min hi v)"

text \<open>
  \<open>Z2mAdapter::scaleToPercent\<close> and \<open>Z2mAdapter::scaleFromPercent\<close>, with \<open>double\<close>
  read as exact real arithmetic.
\<close>

definition scaleToPercent :: "real \<Rightarrow> real \<Rightarrow> real \<Rightarrow> real" where
  "scaleToPercent raw rawMin rawMax =
     (if rawMax \<le> rawMin then raw
      else let clamped = qBound rawMin raw rawMax
           in ((clamped - rawMin) / (rawMax - rawMin)) * 100)"

definition scaleFromPercent :: "real \<Rightarrow> real \<Rightarrow> real \<Rightarrow> real" where
  "scaleFromPercent percent rawMin rawMax =
     (if rawMax \<le> rawMin then percent
      else let clamped = qBound 0 percent 100
           in rawMin + ((rawMax - rawMin) * (clamped / 100)))"

subsection \<open>The stable enum map\<close>

text \<open>
  A \<open>QHash<QString, int>\<close> is an association list with one pair per key. The first loop
  of \<open>buildStableEnumMap\<close> copies the entries of \<open>existing\<close> that hold a positive
  \<open>int\<close> and tracks their maximum; the second walks the sorted raw keys and gives each
  new one \<open>++maxValue\<close>. The counter is an \<open>int\<close> in the source; the model counts in
  \<^typ>\<open>int\<close>, which agrees with it as long as the counter stays below \<open>INT_MAX\<close>.
\<close>

type_synonym enum_map = "(string \<times> int) list"

fun copyExisting :: "jobject \<Rightarrow> enum_map \<times> int \<Rightarrow> enum_map \<times> int" where
  "copyExisting [] (m, maxValue) = (m, maxValue)"
| "copyExisting ((k, val) # rest) (m, maxValue) =
     (if \<not> isDouble val then copyExisting rest (m, maxValue)
      else let v = toInt val in
        if v \<le> 0 then copyExisting rest (m, maxValue)
        else copyExisting rest (AList.update k v m, (if v > maxValue then v else maxValue)))"

fun assignNew :: "string list \<Rightarrow> enum_map \<times> int \<Rightarrow> enum_map \<times> int" where
  "assignNew [] (m, maxValue) = (m, maxValue)"
| "assignNew (key # rest) (m, maxValue) =
     (if key = [] then assignNew rest (m, maxValue)
      else if map_of m key \<noteq> None then assignNew rest (m, maxValue)
      else assignNew rest (AList.update key (maxValue + 1) m, maxValue + 1))"

definition sortCI :: "string list \<Rightarrow> string list" where
  "sortCI keys = sort_key ciKey keys"

definition buildStableEnumMap :: "string list \<Rightarrow> jobject \<Rightarrow> enum_map" where
  "buildStableEnumMap rawKeys existing =
     fst (assignNew (sortCI rawKeys) (copyExisting existing ([], 0)))"

text \<open>
  The channel meta stores the map as a JSON object (\<open>stableMapObj.insert(it.key(), it.value())\<close>
  in \<open>addChannelFromExpose\<close>); \<open>currentMax\<close> and \<open>keepsValue\<close> name, for the
  statements below, the largest positive \<open>int\<close> of \<open>existing\<close> (0 when there is none)
  and the keys whose value \<open>existing\<close> hands over.
\<close>

definition enumMapToJson :: "enum_map \<Rightarrow> jobject" where
  "enumMapToJson m = fold (\<lambda>(k, v) obj. jinsert k (JNum (of_int v)) obj) m []"




subsection \<open>Decimal numbers\<close>

text \<open>\<open>QString::number(int)\<close>: the decimal digits, with a minus sign for a negative number.\<close>

fun natToStr :: "nat \<Rightarrow> string" where
  "natToStr n =
     (if n < 10 then [''0123456789'' ! n]
      else natToStr (n div 10) @ [''0123456789'' ! (n mod 10)])"

declare natToStr.simps [simp del]

definition number :: "int \<Rightarrow> string" where
  "number i = (if i < 0 then CHR ''-'' # natToStr (nat (- i)) else natToStr (nat i))"

text \<open>
  A plain decimal reading of a string (an optional minus sign, then digits only, within
  the range of \<open>int\<close>). It serves as \<open>strToInt\<close> of the environment in the worked
  examples; the theorems hold for every environment.
\<close>

definition digitVal :: "char \<Rightarrow> int option" where
  "digitVal c = map_of (zip ''0123456789'' [0, 1, 2, 3, 4, 5, 6, 7, 8, 9]) c"

fun digitsToInt :: "string \<Rightarrow> int \<Rightarrow> int option" where
  "digitsToInt [] acc = Some acc"
| "digitsToInt (c # cs) acc =
     (case digitVal c of None \<Rightarrow> None | Some d \<Rightarrow> digitsToInt cs (10 * acc + d))"

definition decimalToInt :: "string \<Rightarrow> int option" where
  "decimalToInt s =
     (let (neg, ds) = (case s of c # cs \<Rightarrow> if c = CHR ''-'' then (True, cs) else (False, s)
                       | [] \<Rightarrow> (False, s))
      in if ds = [] then None
         else case digitsToInt ds 0 of
           None \<Rightarrow> None
         | Some n \<Rightarrow>
             let i = (if neg then - n else n)
             in if INT_MIN \<le> i \<and> i \<le> INT_MAX then Some i else None)"

section \<open>Types of the adapter API\<close>

text \<open>The enumerations of \<open>types.h\<close>; a clash of names is resolved by the enumeration's prefix.\<close>

datatype CmdStatus =
    Success | Failure | Timeout | NotSupported | InvalidArgument | Busy
  | TemporarilyOffline | NotAuthorized | NotImplemented | InternalError

datatype DeviceClass =
    ClassUnknown | Light | Switch | Sensor | Button | Plug | Cover | Thermostat
  | Gateway | MediaPlayer | Heater | Gate | Valve

datatype ButtonEventCode =
    ButtonNone | InitialPress | DoublePress | TriplePress | QuadruplePress | QuintuplePress
  | LongPress | LongPressRelease | ShortPressRelease | Repeat

fun buttonEventInt :: "ButtonEventCode \<Rightarrow> int" where
  "buttonEventInt ButtonNone = 0"
| "buttonEventInt InitialPress = 1"
| "buttonEventInt DoublePress = 2"
| "buttonEventInt TriplePress = 3"
| "buttonEventInt QuadruplePress = 4"
| "buttonEventInt QuintuplePress = 5"
| "buttonEventInt LongPress = 10"
| "buttonEventInt LongPressRelease = 11"
| "buttonEventInt ShortPressRelease = 12"
| "buttonEventInt Repeat = 20"

datatype RockerMode = RockerUnknown | SingleRocker | DualRocker | SinglePush | DualPush

fun rockerModeInt :: "RockerMode \<Rightarrow> int" where
  "rockerModeInt RockerUnknown = 0"
| "rockerModeInt SingleRocker = 1"
| "rockerModeInt DualRocker = 2"
| "rockerModeInt SinglePush = 3"
| "rockerModeInt DualPush = 4"

datatype SensitivityLevel = SensitivityUnknown | Low | Medium | High | VeryHigh | SensitivityMax

fun sensitivityLevelInt :: "SensitivityLevel \<Rightarrow> int" where
  "sensitivityLevelInt SensitivityUnknown = 0"
| "sensitivityLevelInt Low = 1"
| "sensitivityLevelInt Medium = 2"
| "sensitivityLevelInt High = 3"
| "sensitivityLevelInt VeryHigh = 4"
| "sensitivityLevelInt SensitivityMax = 5"

text \<open>
  \<open>ChannelKind\<close>, restricted to the kinds that \<open>z2madapter.cpp\<close> assigns or switches on;
  the media-player and water-quality kinds of \<open>types.h\<close> never reach a binding.
\<close>

datatype ChannelKind =
    KindUnknown | PowerOnOff | ButtonEvent
  | Brightness | ColorTemperature | ColorRGB
  | Temperature | Humidity | Illuminance | Motion | Battery | CO2
  | ConnectivityStatusKind | DeviceSoftwareUpdate | SignalStrength | Power | Voltage | Current
  | Energy | LinkQuality | Duration | Tamper | AmbientLightLevel

datatype ChannelDataType = TypeUnknown | TypeBool | TypeInt | TypeFloat | TypeString | TypeColor | TypeEnum

datatype ConnectivityStatus = StatusUnknown | Connected | Limited | Disconnected

fun connectivityInt :: "ConnectivityStatus \<Rightarrow> int" where
  "connectivityInt StatusUnknown = 0"
| "connectivityInt Connected = 1"
| "connectivityInt Limited = 2"
| "connectivityInt Disconnected = 3"

text \<open>\<open>ChannelFlags\<close> and \<open>DeviceFlags\<close> are \<open>QFlags\<close> over \<open>quint32\<close>.\<close>

type_synonym ChannelFlags = "32 word"

definition ChannelFlagNone :: ChannelFlags where "ChannelFlagNone = 0x00"
definition ChannelFlagReadable :: ChannelFlags where "ChannelFlagReadable = 0x01"
definition ChannelFlagWritable :: ChannelFlags where "ChannelFlagWritable = 0x02"
definition ChannelFlagReportable :: ChannelFlags where "ChannelFlagReportable = 0x04"
definition ChannelFlagRetained :: ChannelFlags where "ChannelFlagRetained = 0x08"

definition ChannelFlagDefaultRead :: ChannelFlags where
  "ChannelFlagDefaultRead = ChannelFlagReadable OR ChannelFlagReportable OR ChannelFlagRetained"

text \<open>\<open>QFlags::testFlag\<close>.\<close>

definition testFlag :: "32 word \<Rightarrow> 32 word \<Rightarrow> bool" where
  "testFlag flags flag = ((flags AND flag) = flag \<and> (flag \<noteq> 0 \<or> flags = flag))"

definition DeviceFlagNone :: "32 word" where "DeviceFlagNone = 0x00"
definition DeviceFlagWireless :: "32 word" where "DeviceFlagWireless = 0x01"
definition DeviceFlagBattery :: "32 word" where "DeviceFlagBattery = 0x02"

record AdapterConfigOption =
  opt_value :: string
  opt_label :: string

text \<open>
  \<open>Channel\<close> and \<open>Device\<close>, without the runtime fields (\<open>lastValue\<close>, \<open>lastUpdateMs\<close>,
  \<open>hasValue\<close>, \<open>effects\<close>) that the adapter never writes.
\<close>

record Channel =
  ch_name :: string
  ch_id :: string
  ch_kind :: ChannelKind
  ch_dataType :: ChannelDataType
  ch_flags :: ChannelFlags
  ch_unit :: string
  ch_minValue :: real
  ch_maxValue :: real
  ch_stepValue :: real
  ch_meta :: jobject
  ch_choices :: "AdapterConfigOption list"

definition newChannel :: Channel where
  "newChannel = \<lparr> ch_name = [], ch_id = [], ch_kind = KindUnknown, ch_dataType = TypeUnknown,
     ch_flags = ChannelFlagNone, ch_unit = [], ch_minValue = 0, ch_maxValue = 0,
     ch_stepValue = 0, ch_meta = [], ch_choices = [] \<rparr>"

record Device =
  d_name :: string
  d_deviceClass :: DeviceClass
  d_flags :: "32 word"
  d_id :: string
  d_manufacturer :: string
  d_firmware :: string
  d_model :: string
  d_meta :: jobject

definition newDevice :: Device where
  "newDevice = \<lparr> d_name = [], d_deviceClass = ClassUnknown, d_flags = DeviceFlagNone, d_id = [],
     d_manufacturer = [], d_firmware = [], d_model = [], d_meta = [] \<rparr>"

text \<open>\<open>CmdId\<close> is a \<open>quint64\<close>. The responses carry the fields the adapter sets.\<close>

type_synonym CmdId = "64 word"

record CmdResponse =
  r_id :: CmdId
  r_status :: CmdStatus
  r_error :: string
  r_tsMs :: int

record ActionResponse =
  a_id :: CmdId
  a_status :: CmdStatus
  a_error :: string
  a_tsMs :: int

record Color3 =
  c_r :: real
  c_g :: real
  c_b :: real

text \<open>The \<open>QVariant\<close> values the adapter hands to \<open>channelStateUpdated\<close>.\<close>

datatype QVariant =
    VInvalid
  | VBool bool
  | VInt int
  | VDouble real
  | VString string
  | VColor Color3
  | VJsonObject jobject

fun isValid :: "QVariant \<Rightarrow> bool" where
  "isValid VInvalid = False"
| "isValid v = True"

section \<open>Adapter state\<close>

text \<open>
  The private structs of \<open>Z2mAdapter\<close>. A \<open>QHash\<close> is an association list with one pair
  per key: \<open>find\<close>/\<open>value\<close>/\<open>contains\<close> are \<^const>\<open>map_of\<close>, \<open>insert\<close> is
  \<^const>\<open>AList.update\<close>, \<open>remove\<close> is \<^const>\<open>AList.delete\<close>, and iteration follows the
  list.
\<close>

record PendingRename =
  pr_cmdId :: CmdId
  pr_targetName :: string
  pr_requestedAtMs :: int

record Z2mChannelBinding =
  b_channelId :: string
  b_property :: string
  b_kind :: ChannelKind
  b_dataType :: ChannelDataType
  b_flags :: ChannelFlags
  b_unit :: string
  b_rawMin :: real
  b_rawMax :: real
  b_rawStep :: real
  b_valueScale :: real
  b_endpoint :: string
  b_valueOn :: string
  b_valueOff :: string
  b_colorMode :: string
  b_scalePercent :: bool
  b_isAvailability :: bool
  b_enumRawToValue :: "(string \<times> int) list"
  b_enumValueToRaw :: "(int \<times> string) list"

definition newBinding :: Z2mChannelBinding where
  "newBinding = \<lparr> b_channelId = [], b_property = [], b_kind = KindUnknown,
     b_dataType = TypeUnknown, b_flags = ChannelFlagNone, b_unit = [], b_rawMin = 0,
     b_rawMax = 0, b_rawStep = 0, b_valueScale = 1, b_endpoint = [], b_valueOn = [],
     b_valueOff = [], b_colorMode = [], b_scalePercent = False, b_isAvailability = False,
     b_enumRawToValue = [], b_enumValueToRaw = [] \<rparr>"

record Z2mDeviceEntry =
  e_device :: Device
  e_mqttId :: string
  e_channels :: "Channel list"
  e_bindingsByChannel :: "(string \<times> Z2mChannelBinding) list"
  e_channelByProperty :: "(string \<times> string) list"

definition newEntry :: Z2mDeviceEntry where
  "newEntry = \<lparr> e_device = newDevice, e_mqttId = [], e_channels = [],
     e_bindingsByChannel = [], e_channelByProperty = [] \<rparr>"

text \<open>\<open>MqttClient::State\<close>; \<open>m_client\<close> is \<open>None\<close> for \<open>nullptr\<close> and otherwise holds the
  state the client reports.\<close>

datatype MqttState = StateDisconnected | StateConnecting | StateConnected

text \<open>The \<open>Adapter\<close> record the host supplies, as far as the adapter reads it.\<close>

record AdapterInfo =
  ad_id :: string
  ad_ip :: string
  ad_port :: int
  ad_user :: string
  ad_pw :: string
  ad_meta :: jobject

record Z2mAdapter =
  adapter :: AdapterInfo
  m_client :: "MqttState option"
  m_reconnectTimer :: "bool option"
  m_connected :: bool
  m_mqttConnected :: bool
  m_bridgeOnline :: bool
  m_lastSeenRequested :: bool
  m_pendingFullSync :: bool
  m_retryIntervalMs :: int
  m_baseTopic :: string
  m_devices :: "(string \<times> Z2mDeviceEntry) list"
  m_mqttByExternal :: "(string \<times> string) list"
  m_pendingRename :: "(string \<times> PendingRename) list"
  m_pendingStatePayloads :: "(string \<times> jobject) list"
  m_postSetRefreshTimers :: "string list"
  m_coordinatorId :: string
  m_pendingBridgeInfo :: jobject

text \<open>The member initialisers of \<open>z2madapter.h\<close>.\<close>

definition initialAdapter :: "AdapterInfo \<Rightarrow> Z2mAdapter" where
  "initialAdapter info = \<lparr> adapter = info, m_client = None, m_reconnectTimer = None,
     m_connected = False, m_mqttConnected = False, m_bridgeOnline = True,
     m_lastSeenRequested = False, m_pendingFullSync = False, m_retryIntervalMs = 10000,
     m_baseTopic = ''zigbee2mqtt'', m_devices = [], m_mqttByExternal = [],
     m_pendingRename = [], m_pendingStatePayloads = [], m_postSetRefreshTimers = [],
     m_coordinatorId = [], m_pendingBridgeInfo = [] \<rparr>"

section \<open>Colour conversions\<close>

text \<open>The inline functions of \<open>color.h\<close> that the adapter calls, in real arithmetic.\<close>

definition clamp01 :: "real \<Rightarrow> real" where
  "clamp01 v = qBound 0 v 1"

definition makeColor :: "real \<Rightarrow> real \<Rightarrow> real \<Rightarrow> Color3" where
  "makeColor r g b = \<lparr> c_r = qBound 0 r 1, c_g = qBound 0 g 1, c_b = qBound 0 b 1 \<rparr>"

text \<open>\<open>std::fmod\<close>: the remainder of the quotient truncated towards zero.\<close>

definition fmod :: "real \<Rightarrow> real \<Rightarrow> real" where
  "fmod x y = (let q = x / y in x - y * of_int (if 0 \<le> q then \<lfloor>q\<rfloor> else \<lceil>q\<rceil>))"

definition wrapHue360 :: "real \<Rightarrow> real" where
  "wrapHue360 h = (let r = fmod h 360 in if r < 0 then r + 360 else r)"

definition hsvToColor :: "real \<Rightarrow> real \<Rightarrow> real \<Rightarrow> Color3" where
  "hsvToColor hDeg s01 v01 =
     (let h = wrapHue360 hDeg; s = clamp01 s01; v = clamp01 v01 in
      if s \<le> 0 then makeColor v v v
      else
        let c = v * s;
            hPrime = h / 60;
            x = c * (1 - \<bar>fmod hPrime 2 - 1\<bar>);
            rgb1 = (if 0 \<le> hPrime \<and> hPrime < 1 then (c, x, 0)
                    else if 1 \<le> hPrime \<and> hPrime < 2 then (x, c, 0)
                    else if 2 \<le> hPrime \<and> hPrime < 3 then (0, c, x)
                    else if 3 \<le> hPrime \<and> hPrime < 4 then (0, x, c)
                    else if 4 \<le> hPrime \<and> hPrime < 5 then (x, 0, c)
                    else (c, 0, x));
            m = v - c
        in case rgb1 of (r1, g1, b1) \<Rightarrow> makeColor (r1 + m) (g1 + m) (b1 + m))"

text \<open>\<open>colorToHsv\<close> returns hue in degrees, saturation and value.\<close>

definition colorToHsv :: "Color3 \<Rightarrow> real \<times> real \<times> real" where
  "colorToHsv c =
     (let r = clamp01 (c_r c); g = clamp01 (c_g c); b = clamp01 (c_b c);
          maxC = max r (max g b);
          minC = min r (min g b);
          delta = maxC - minC
      in if delta \<le> 1 / 10 ^ 9 then (0, 0, maxC)
         else
           let h = (if maxC = r then 60 * fmod ((g - b) / delta) 6
                    else if maxC = g then 60 * (((b - r) / delta) + 2)
                    else 60 * (((r - g) / delta) + 4))
           in (wrapHue360 h, delta / maxC, maxC))"

definition srgbToLinear :: "real \<Rightarrow> real" where
  "srgbToLinear c0 =
     (let c = clamp01 c0 in
      if c \<le> 0.04045 then c / 12.92 else ((c + 0.055) / 1.055) powr 2.4)"

definition linearToSrgb :: "real \<Rightarrow> real" where
  "linearToSrgb c =
     (if c \<le> 0 then 0
      else if c \<ge> 1 then 1
      else if c \<le> 0.0031308 then 12.92 * c
      else 1.055 * (c powr (1 / 2.4)) - 0.055)"

definition xyzToLinearRgb :: "real \<Rightarrow> real \<Rightarrow> real \<Rightarrow> real \<times> real \<times> real" where
  "xyzToLinearRgb X Y Z =
     (clamp01 (3.2406 * X - 1.5372 * Y - 0.4986 * Z),
      clamp01 (- 0.9689 * X + 1.8758 * Y + 0.0415 * Z),
      clamp01 (0.0557 * X - 0.2040 * Y + 1.0570 * Z))"

definition linearToColor :: "real \<times> real \<times> real \<Rightarrow> Color3" where
  "linearToColor lin =
     (case lin of (r, g, b) \<Rightarrow>
        \<lparr> c_r = clamp01 (linearToSrgb r), c_g = clamp01 (linearToSrgb g),
          c_b = clamp01 (linearToSrgb b) \<rparr>)"

definition colorFromXy :: "real \<Rightarrow> real \<Rightarrow> real \<Rightarrow> Color3" where
  "colorFromXy x y bri01 =
     (let bri = clamp01 bri01 in
      if y \<le> 1 / 10 ^ 6 then makeColor bri bri bri
      else
        let Y = bri;
            X = (Y / y) * x;
            Z = (Y / y) * (1 - x - y)
        in linearToColor (xyzToLinearRgb X Y Z))"

text \<open>\<open>colorToXy(c, outX, outY)\<close> returns the two chromaticity coordinates.\<close>

definition colorToXy :: "Color3 \<Rightarrow> real \<times> real" where
  "colorToXy c =
     (let r = srgbToLinear (c_r c); g = srgbToLinear (c_g c); b = srgbToLinear (c_b c);
          X = 0.4124 * r + 0.3576 * g + 0.1805 * b;
          Y = 0.2126 * r + 0.7152 * g + 0.0722 * b;
          Z = 0.0193 * r + 0.1192 * g + 0.9505 * b;
          sum = X + Y + Z
      in if sum \<le> 1 / 10 ^ 9 then (0.3127, 0.3290) else (X / sum, Y / sum))"

section \<open>Environment and effects\<close>

text \<open>
  What a handler reads from outside the adapter during one call: the clock
  (\<open>QDateTime::currentMSecsSinceEpoch()\<close>, read once per call in the model), the message
  id that \<open>MqttClient::publish\<close> returns for a topic and payload, and three Qt conversions
  whose rules belong to the library: \<open>QDateTime::fromString(s, Qt::ISODate)\<close> followed by
  \<open>toMSecsSinceEpoch()\<close> (\<open>None\<close> when the date is not valid),
  \<open>QString::number(d, 'f', 0)\<close> and \<open>QString::toInt(&ok)\<close> (\<open>None\<close> when \<open>ok\<close> is false).
\<close>

record Env =
  now :: int
  publishResult :: "string \<Rightarrow> json \<Rightarrow> int"
  fromIsoDate :: "string \<Rightarrow> int option"
  numberF0 :: "real \<Rightarrow> string"
  strToInt :: "string \<Rightarrow> int option"

text \<open>
  What a handler does to the outside: the signals of \<open>AdapterInterface\<close> it emits, the
  calls it makes on the MQTT client and the timers it arms, in program order. A publish
  carries the JSON document instead of its compact bytes. \<open>StatePayloadApplied\<close> is not a
  signal: it records that the body of \<open>handleDeviceStatePayload\<close> ran for a known device
  with the given payload, so that statements can count the runs.
\<close>

datatype Effect =
    CmdResult CmdResponse
  | ActionResult ActionResponse
  | ConnectionStateChanged bool
  | DeviceUpdated Device "Channel list"
  | DeviceRemoved string
  | ChannelStateUpdated string string QVariant int
  | FullSyncCompleted
  | AdapterMetaUpdated jobject
  | Publish string json
  | Subscribe string
  | ClientSetClientId string
  | ClientSetHostname string
  | ClientSetPort int
  | ClientSetUsername string
  | ClientSetPassword string
  | ConnectToHost
  | DisconnectFromHost
  | ReconnectTimerStarted int
  | ReconnectTimerStopped
  | PostSetRefreshTimerStarted string
  | PostSetRefreshTimersStopped
  | RenameTimeoutScheduled string
  | AvailabilityDefaultScheduled string int string string
  | StatePayloadApplied string jobject

fun isCmdResult :: "Effect \<Rightarrow> bool" where
  "isCmdResult (CmdResult r) = True"
| "isCmdResult e = False"

fun isChannelStateUpdated :: "Effect \<Rightarrow> bool" where
  "isChannelStateUpdated (ChannelStateUpdated d c v t) = True"
| "isChannelStateUpdated e = False"

fun isDeviceUpdated :: "Effect \<Rightarrow> bool" where
  "isDeviceUpdated (DeviceUpdated d cs) = True"
| "isDeviceUpdated e = False"

fun isDeviceRemoved :: "Effect \<Rightarrow> bool" where
  "isDeviceRemoved (DeviceRemoved d) = True"
| "isDeviceRemoved e = False"

fun isPublish :: "Effect \<Rightarrow> bool" where
  "isPublish (Publish t p) = True"
| "isPublish e = False"

fun isConnectionStateChanged :: "Effect \<Rightarrow> bool" where
  "isConnectionStateChanged (ConnectionStateChanged c) = True"
| "isConnectionStateChanged e = False"

fun isStatePayloadApplied :: "Effect \<Rightarrow> bool" where
  "isStatePayloadApplied (StatePayloadApplied d p) = True"
| "isStatePayloadApplied e = False"

section \<open>Connection state\<close>

definition stopReconnectTimer :: "Z2mAdapter \<Rightarrow> Z2mAdapter \<times> Effect list" where
  "stopReconnectTimer s =
     (case m_reconnectTimer s of
        None \<Rightarrow> (s, [])
      | Some active \<Rightarrow> (s\<lparr>m_reconnectTimer := Some False\<rparr>, [ReconnectTimerStopped]))"

definition setConnected :: "bool \<Rightarrow> Z2mAdapter \<Rightarrow> Z2mAdapter \<times> Effect list" where
  "setConnected isConnected s =
     (if m_connected s = isConnected then (s, [])
      else
        let s1 = s\<lparr>m_connected := isConnected\<rparr>;
            (s2, es) = (if m_connected s1 then stopReconnectTimer s1 else (s1, []))
        in (s2, es @ [ConnectionStateChanged (m_connected s2)]))"

definition updateConnectionState :: "Z2mAdapter \<Rightarrow> Z2mAdapter \<times> Effect list" where
  "updateConnectionState s = setConnected (m_mqttConnected s \<and> m_bridgeOnline s) s"

text \<open>\<open>m_client && m_client->state() == MqttClient::State::Connected\<close>.\<close>

definition clientConnected :: "Z2mAdapter \<Rightarrow> bool" where
  "clientConnected s = (m_client s = Some StateConnected)"

definition clientBusy :: "Z2mAdapter \<Rightarrow> bool" where
  "clientBusy s = (m_client s = Some StateConnected \<or> m_client s = Some StateConnecting)"

section \<open>Command pipeline\<close>

text \<open>
  The \<open>QVariant\<close> that the host passes to \<open>updateChannelState\<close> is given by what the
  code reads from it: \<open>typeId()\<close> as far as it is compared, the four conversions, and
  \<open>canConvert<Color>()\<close> with \<open>value<Color>()\<close> as an option.
\<close>

datatype MetaTypeId = MetaInt | MetaLongLong | MetaDouble | MetaOther

record CmdValue =
  v_typeId :: MetaTypeId
  v_toInt :: int
  v_toDouble :: real
  v_toBool :: bool
  v_toString :: string
  v_toColor :: "Color3 option"

text \<open>
  The enum encoding that \<open>buildCommandPayload\<close> contains twice, once at its head for every
  binding of data type \<open>Enum\<close> and once in its \<open>Unknown\<close> case.
\<close>

definition encodeEnum :: "Env \<Rightarrow> Z2mChannelBinding \<Rightarrow> CmdValue \<Rightarrow> json" where
  "encodeEnum env binding v =
     (if v_typeId v = MetaInt \<or> v_typeId v = MetaLongLong \<or> v_typeId v = MetaDouble then
        let enumVal = v_toInt v in
        (case map_of (b_enumValueToRaw binding) enumVal of
           Some raw \<Rightarrow> JStr raw
         | None \<Rightarrow> JNum (of_int enumVal))
      else
        let text = v_toString v in
        if map_of (b_enumRawToValue binding) text \<noteq> None then JStr text
        else
          (case strToInt env text of
             Some numeric \<Rightarrow>
               (case map_of (b_enumValueToRaw binding) numeric of
                  Some raw \<Rightarrow> JStr raw
                | None \<Rightarrow> JNum (of_int numeric))
           | None \<Rightarrow> JStr text))"

definition scaledKinds :: "ChannelKind list" where
  "scaledKinds = [Temperature, Humidity, Illuminance, CO2, Power, Voltage, Current, Energy,
                  SignalStrength, LinkQuality, Battery, Duration]"

definition unscale :: "Z2mChannelBinding \<Rightarrow> CmdValue \<Rightarrow> real" where
  "unscale binding v =
     v_toDouble v / (if b_valueScale binding > 0 then b_valueScale binding else 1)"

text \<open>
  \<open>buildCommandPayload\<close>: \<open>Inl\<close> carries \<open>errorString\<close> of a \<open>false\<close> return, \<open>Inr\<close> the
  payload of a \<open>true\<close> one.
\<close>

definition buildCommandPayload ::
  "Env \<Rightarrow> string \<Rightarrow> Z2mChannelBinding \<Rightarrow> CmdValue \<Rightarrow> string + jobject" where
  "buildCommandPayload env deviceId binding v =
     (let prop = b_property binding in
      if b_dataType binding = TypeEnum then Inr (jinsert prop (encodeEnum env binding v) [])
      else if b_kind binding = PowerOnOff then
        (let on = v_toBool v in
         if b_valueOn binding \<noteq> [] \<or> b_valueOff binding \<noteq> []
         then Inr (jinsert prop (JStr (if on then b_valueOn binding else b_valueOff binding)) [])
         else Inr (jinsert prop (JStr (if on then ''ON'' else ''OFF'')) []))
      else if b_kind binding = Brightness then
        Inr (jinsert prop
               (JNum (scaleFromPercent (v_toDouble v) (b_rawMin binding) (b_rawMax binding))) [])
      else if b_kind binding = ColorTemperature then
        Inr (jinsert prop (JNum (v_toDouble v)) [])
      else if b_kind binding = ColorRGB then
        (case v_toColor v of
           None \<Rightarrow> Inl ''Invalid color value.''
         | Some color \<Rightarrow>
             let colorObj =
               (if b_colorMode binding = ''xy''
                then (case colorToXy color of (x, y) \<Rightarrow>
                        jinsert ''y'' (JNum y) (jinsert ''x'' (JNum x) []))
                else (case colorToHsv color of (hDeg, sat, val) \<Rightarrow>
                        jinsert ''saturation'' (JNum (sat * 100)) (jinsert ''hue'' (JNum hDeg) [])))
             in Inr (jinsert prop (JObj colorObj) []))
      else if b_kind binding \<in> set scaledKinds then
        Inr (jinsert prop (JNum (unscale binding v)) [])
      else if b_kind binding = KindUnknown then
        (if b_dataType binding = TypeBool then Inr (jinsert prop (JBool (v_toBool v)) [])
         else if b_dataType binding = TypeEnum then Inr (jinsert prop (encodeEnum env binding v) [])
         else Inr (jinsert prop (JNum (unscale binding v)) []))
      else Inl ''Unsupported channel'')"

text \<open>
  \<open>publishCommand\<close>: the effects are the calls made on the client; \<open>Inl\<close> carries
  \<open>errorString\<close> of a \<open>false\<close> return.
\<close>

definition commandTopic :: "Z2mAdapter \<Rightarrow> string \<Rightarrow> string \<Rightarrow> string" where
  "commandTopic s deviceId endpoint =
     (if endpoint = [] then m_baseTopic s @ ''/'' @ deviceId @ ''/set''
      else m_baseTopic s @ ''/'' @ deviceId @ ''/'' @ endpoint @ ''/set'')"

definition publishCommand ::
  "Env \<Rightarrow> string \<Rightarrow> jobject \<Rightarrow> string \<Rightarrow> Z2mAdapter \<Rightarrow> (string + unit) \<times> Effect list" where
  "publishCommand env deviceId payload endpoint s =
     (if \<not> clientConnected s then (Inl ''MQTT client not connected.'', [])
      else
        let topic = commandTopic s deviceId endpoint;
            msgId = publishResult env topic (JObj payload)
        in if msgId < 0 then (Inl ''MQTT publish failed.'', [Publish topic (JObj payload)])
           else (Inr (), [Publish topic (JObj payload)]))"

definition cmdResponse :: "CmdId \<Rightarrow> int \<Rightarrow> CmdStatus \<Rightarrow> string \<Rightarrow> CmdResponse" where
  "cmdResponse cmdId ts st err = \<lparr> r_id = cmdId, r_status = st, r_error = err, r_tsMs = ts \<rparr>"

definition resolveMqttId :: "Z2mAdapter \<Rightarrow> string \<Rightarrow> string" where
  "resolveMqttId s deviceExternalId =
     (case map_of (m_mqttByExternal s) deviceExternalId of
        Some mqttId \<Rightarrow> mqttId
      | None \<Rightarrow> deviceExternalId)"

definition updateChannelState ::
  "Env \<Rightarrow> string \<Rightarrow> string \<Rightarrow> CmdValue \<Rightarrow> CmdId \<Rightarrow> Z2mAdapter \<Rightarrow> Z2mAdapter \<times> Effect list" where
  "updateChannelState env deviceExternalId channelExternalId v cmdId s =
     (let mqttId = resolveMqttId s deviceExternalId in
      case map_of (m_devices s) mqttId of
        None \<Rightarrow> (s, [CmdResult (cmdResponse cmdId (now env) NotSupported ''Unknown device'')])
      | Some entry \<Rightarrow>
          (case map_of (e_bindingsByChannel entry) channelExternalId of
             None \<Rightarrow> (s, [CmdResult (cmdResponse cmdId (now env) NotSupported ''Unknown channel'')])
           | Some binding \<Rightarrow>
               if \<not> testFlag (b_flags binding) ChannelFlagWritable then
                 (s, [CmdResult (cmdResponse cmdId (now env) NotSupported ''Channel is read-only'')])
               else if \<not> m_connected s \<or> \<not> clientConnected s then
                 (s, [CmdResult (cmdResponse cmdId (now env) TemporarilyOffline
                                   ''MQTT broker not connected'')])
               else
                 (case buildCommandPayload env deviceExternalId binding v of
                    Inl errorString \<Rightarrow>
                      (s, [CmdResult (cmdResponse cmdId (now env) InvalidArgument errorString)])
                  | Inr payload \<Rightarrow>
                      (case publishCommand env mqttId payload (b_endpoint binding) s of
                         (Inl errorString, es) \<Rightarrow>
                           (s, es @ [CmdResult (cmdResponse cmdId (now env) Failure errorString)])
                       | (Inr u, es) \<Rightarrow>
                           (s\<lparr>m_postSetRefreshTimers :=
                                 (if mqttId \<in> set (m_postSetRefreshTimers s)
                                  then m_postSetRefreshTimers s
                                  else m_postSetRefreshTimers s @ [mqttId])\<rparr>,
                            es @ [PostSetRefreshTimerStarted mqttId,
                                  CmdResult (cmdResponse cmdId (now env) Success [])])))))"

text \<open>The lambda connected to the post-set refresh timer of \<open>mqttId\<close>.\<close>

definition postSetRefreshTimeout :: "Env \<Rightarrow> string \<Rightarrow> Z2mAdapter \<Rightarrow> Z2mAdapter \<times> Effect list" where
  "postSetRefreshTimeout env mqttId s =
     (if \<not> clientConnected s then (s, [])
      else (s, [Publish (m_baseTopic s @ ''/'' @ mqttId @ ''/get'') (JObj [])]))"

definition requestFullSync :: "Env \<Rightarrow> Z2mAdapter \<Rightarrow> Z2mAdapter \<times> Effect list" where
  "requestFullSync env s =
     (let s1 = s\<lparr>m_pendingFullSync := True\<rparr>;
          es1 = (if clientConnected s1
                 then [Publish (m_baseTopic s1 @ ''/bridge/request/devices'') (JObj [])]
                 else [])
      in (s1, es1 @ map (\<lambda>(k, entry). DeviceUpdated (e_device entry) (e_channels entry))
                        (m_devices s1)))"

text \<open>
  The checks of \<open>update_channel_state\<close> as the specification lists them, and the status
  it assigns to the first one that fails.
\<close>

definition deviceResolvable :: "Z2mAdapter \<Rightarrow> string \<Rightarrow> bool" where
  "deviceResolvable s deviceExternalId =
     (map_of (m_devices s) (resolveMqttId s deviceExternalId) \<noteq> None)"

definition bindingOf :: "Z2mAdapter \<Rightarrow> string \<Rightarrow> string \<Rightarrow> Z2mChannelBinding option" where
  "bindingOf s deviceExternalId channelExternalId =
     (case map_of (m_devices s) (resolveMqttId s deviceExternalId) of
        None \<Rightarrow> None
      | Some entry \<Rightarrow> map_of (e_bindingsByChannel entry) channelExternalId)"

definition adapterConnected :: "Z2mAdapter \<Rightarrow> bool" where
  "adapterConnected s = (m_connected s \<and> m_client s = Some StateConnected)"

definition publishFails :: "Env \<Rightarrow> Z2mAdapter \<Rightarrow> string \<Rightarrow> Z2mChannelBinding \<Rightarrow> jobject \<Rightarrow> bool" where
  "publishFails env s deviceExternalId binding payload =
     (publishResult env (commandTopic s (resolveMqttId s deviceExternalId) (b_endpoint binding))
        (JObj payload) < 0)"

definition expectedCmdStatus ::
  "Env \<Rightarrow> string \<Rightarrow> string \<Rightarrow> CmdValue \<Rightarrow> Z2mAdapter \<Rightarrow> CmdStatus" where
  "expectedCmdStatus env deviceExternalId channelExternalId v s =
     (if \<not> deviceResolvable s deviceExternalId then NotSupported
      else case bindingOf s deviceExternalId channelExternalId of
        None \<Rightarrow> NotSupported
      | Some binding \<Rightarrow>
          if \<not> testFlag (b_flags binding) ChannelFlagWritable then NotSupported
          else if \<not> adapterConnected s then TemporarilyOffline
          else case buildCommandPayload env deviceExternalId binding v of
            Inl errorString \<Rightarrow> InvalidArgument
          | Inr payload \<Rightarrow>
              if publishFails env s deviceExternalId binding payload then Failure else Success)"

fun isTimerStart :: "Effect \<Rightarrow> bool" where
  "isTimerStart (PostSetRefreshTimerStarted m) = True"
| "isTimerStart e = False"

section \<open>Expose compiler\<close>

definition kAccessState :: int where "kAccessState = 1"
definition kAccessSet :: int where "kAccessSet = 2"

definition forceReadOnly :: "ChannelFlags \<Rightarrow> ChannelFlags" where
  "forceReadOnly flags =
     (let f1 = (if testFlag flags ChannelFlagWritable then flags XOR ChannelFlagWritable else flags)
      in f1 OR (ChannelFlagReadable OR ChannelFlagReportable OR ChannelFlagRetained))"

definition flagsFromAccess :: "int \<Rightarrow> ChannelFlags" where
  "flagsFromAccess access =
     (let f0 = ChannelFlagNone;
          f1 = (if access AND kAccessState \<noteq> 0
                then f0 OR (ChannelFlagReadable OR ChannelFlagReportable OR ChannelFlagRetained)
                else f0);
          f2 = (if access AND kAccessSet \<noteq> 0 then f1 OR ChannelFlagWritable else f1)
      in if f2 = ChannelFlagNone then ChannelFlagDefaultRead else f2)"

definition isKnownEnumName :: "string \<Rightarrow> string \<Rightarrow> bool" where
  "isKnownEnumName name enumName = equalsCI name enumName"

definition enumLabelFor :: "string \<Rightarrow> int \<Rightarrow> string" where
  "enumLabelFor enumName v =
     (if equalsCI enumName ''RockerMode'' then
        (if v = rockerModeInt SingleRocker then ''SingleRocker''
         else if v = rockerModeInt DualRocker then ''DualRocker''
         else if v = rockerModeInt SinglePush then ''SinglePush''
         else if v = rockerModeInt DualPush then ''DualPush''
         else [])
      else if equalsCI enumName ''SensitivityLevel'' then
        (if v = sensitivityLevelInt Low then ''Low''
         else if v = sensitivityLevelInt Medium then ''Medium''
         else if v = sensitivityLevelInt High then ''High''
         else if v = sensitivityLevelInt VeryHigh then ''VeryHigh''
         else if v = sensitivityLevelInt SensitivityMax then ''Max''
         else [])
      else [])"

definition mapRockerMode :: "string \<Rightarrow> int option" where
  "mapRockerMode raw =
     (let key = toLower (trimmed raw) in
      if key = ''single_rocker'' \<or> key = ''singlerocker'' then Some (rockerModeInt SingleRocker)
      else if key = ''dual_rocker'' \<or> key = ''dualrocker'' then Some (rockerModeInt DualRocker)
      else if key = ''single_push_button'' \<or> key = ''singlepushbutton''
        then Some (rockerModeInt SinglePush)
      else if key = ''dual_push_button'' \<or> key = ''dualpushbutton''
        then Some (rockerModeInt DualPush)
      else None)"

definition mapSensitivityLevel :: "string \<Rightarrow> int option" where
  "mapSensitivityLevel raw =
     (let key = toLower (trimmed raw) in
      if key = ''low'' then Some (sensitivityLevelInt Low)
      else if key = ''medium'' then Some (sensitivityLevelInt Medium)
      else if key = ''high'' then Some (sensitivityLevelInt High)
      else if key = ''very_high'' \<or> key = ''veryhigh'' then Some (sensitivityLevelInt VeryHigh)
      else if key = ''max'' then Some (sensitivityLevelInt SensitivityMax)
      else None)"

subsection \<open>Labels\<close>

definition toUpper_char :: "char \<Rightarrow> char" where
  "toUpper_char c =
     (case map_of (zip ''abcdefghijklmnopqrstuvwxyz'' ''ABCDEFGHIJKLMNOPQRSTUVWXYZ'') c of
        Some u \<Rightarrow> u
      | None \<Rightarrow> c)"

fun splitOn :: "char \<Rightarrow> string \<Rightarrow> string list" where
  "splitOn sep [] = [[]]"
| "splitOn sep (x # xs) =
     (if x = sep then [] # splitOn sep xs
      else case splitOn sep xs of
        p # ps \<Rightarrow> (x # p) # ps
      | [] \<Rightarrow> [[x]])"

fun joinWith :: "string \<Rightarrow> string list \<Rightarrow> string" where
  "joinWith sep [] = []"
| "joinWith sep [p] = p"
| "joinWith sep (p # q # ps) = p @ sep @ joinWith sep (q # ps)"

definition capitalise :: "string \<Rightarrow> string" where
  "capitalise part = (case part of [] \<Rightarrow> [] | c # cs \<Rightarrow> toUpper_char c # cs)"

definition labelFromProperty :: "string \<Rightarrow> string \<Rightarrow> string" where
  "labelFromProperty property fallback =
     (if trimmed fallback \<noteq> [] then trimmed fallback
      else case map_of [(''color_temp'', ''Color Temperature''), (''co2'', ''CO2'')] property of
        Some label \<Rightarrow> label
      | None \<Rightarrow>
          joinWith '' '' (map capitalise (filter (\<lambda>p. p \<noteq> []) (splitOn CHR ''_'' property))))"

subsection \<open>One expose\<close>

text \<open>The static table \<open>kMappings\<close>: kind, data type, unit and \<open>scalePercent\<close> per property.\<close>

definition kMappings :: "(string \<times> ChannelKind \<times> ChannelDataType \<times> string \<times> bool) list" where
  "kMappings =
     [(''state'', PowerOnOff, TypeBool, [], False),
      (''brightness'', Brightness, TypeFloat, ''%'', True),
      (''color_temp'', ColorTemperature, TypeFloat, ''mired'', False),
      (''color'', ColorRGB, TypeColor, [], False),
      (''temperature'', Temperature, TypeFloat, ''C'', False),
      (''humidity'', Humidity, TypeFloat, ''%'', False),
      (''illuminance'', Illuminance, TypeInt, ''lx'', False),
      (''illumination'', AmbientLightLevel, TypeEnum, [], False),
      (''occupancy'', Motion, TypeBool, [], False),
      (''motion'', Motion, TypeBool, [], False),
      (''battery'', Battery, TypeInt, ''%'', False),
      (''battery_low'', KindUnknown, TypeBool, [], False),
      (''linkquality'', LinkQuality, TypeFloat, ''%'', False),
      (''keep_time'', Duration, TypeInt, ''s'', False),
      (''tamper'', Tamper, TypeBool, [], False),
      (''power'', Power, TypeFloat, ''W'', False),
      (''voltage'', Voltage, TypeFloat, ''V'', False),
      (''current'', Current, TypeFloat, ''A'', False),
      (''energy'', Energy, TypeFloat, ''kWh'', False),
      (''co2'', CO2, TypeFloat, ''ppm'', False),
      (''action'', ButtonEvent, TypeInt, [], False)]"

definition isSensorMeasurementKind :: "ChannelKind \<Rightarrow> bool" where
  "isSensorMeasurementKind k =
     (k \<in> set [Temperature, Humidity, Illuminance, CO2, Power, Voltage, Current, Energy, Battery,
                Motion, Tamper, AmbientLightLevel, LinkQuality, SignalStrength, ButtonEvent])"

definition writableSensorConfigTokens :: "string list" where
  "writableSensorConfigTokens =
     [''calibration'', ''sensitivity'', ''threshold'', ''alarm'', ''keep_time'', ''interval'',
      ''unit'', ''mode'']"

definition isMinMaxHelper :: "string \<Rightarrow> bool" where
  "isMinMaxHelper propLower =
     (propLower = ''min'' \<or> propLower = ''max''
      \<or> startsWith propLower ''min_'' \<or> startsWith propLower ''max_''
      \<or> endsWith propLower ''_min'' \<or> endsWith propLower ''_max'')"

definition exposeEndpoint :: "jobject \<Rightarrow> string" where
  "exposeEndpoint expose =
     (if isString (jvalue expose ''endpoint'') then trimmed (toString (jvalue expose ''endpoint''))
      else if isDouble (jvalue expose ''endpoint'') then number (toInt (jvalue expose ''endpoint''))
      else [])"

subsection \<open>The enum block\<close>

definition enumNameFor :: "string \<Rightarrow> string" where
  "enumNameFor property =
     (if property = ''device_mode'' then ''RockerMode''
      else if property = ''motion_sensitivity'' \<or> property = ''sensitivity'' then ''SensitivityLevel''
      else [])"

definition enumKey :: "json \<Rightarrow> string" where
  "enumKey val =
     (if isString val then toString val
      else if isDouble val then number (toInt val)
      else [])"

text \<open>
  The loop over \<open>values\<close>: it collects the non-empty keys in order, clears
  \<open>allNumericEnumValues\<close> at a key that \<open>toInt\<close> rejects, and records the normalised
  value of a key of a known enum.
\<close>

definition normalise :: "string \<Rightarrow> string \<Rightarrow> int option" where
  "normalise enumName key =
     (if enumName = [] then None
      else if isKnownEnumName enumName ''RockerMode'' then mapRockerMode key
      else if isKnownEnumName enumName ''SensitivityLevel'' then mapSensitivityLevel key
      else None)"

fun valuesLoop ::
  "Env \<Rightarrow> string \<Rightarrow> json list \<Rightarrow> string list \<times> enum_map \<times> bool \<Rightarrow>
   string list \<times> enum_map \<times> bool" where
  "valuesLoop env enumName [] acc = acc"
| "valuesLoop env enumName (val # rest) (rawKeys, normalizedMap, allNumeric) =
     (let key = enumKey val in
      if key = [] then valuesLoop env enumName rest (rawKeys, normalizedMap, allNumeric)
      else
        valuesLoop env enumName rest
          (rawKeys @ [key],
           (case normalise enumName key of
              Some mapped \<Rightarrow> AList.update key mapped normalizedMap
            | None \<Rightarrow> normalizedMap),
           (if strToInt env key = None then False else allNumeric)))"

fun numericMap :: "Env \<Rightarrow> string list \<Rightarrow> enum_map \<Rightarrow> enum_map" where
  "numericMap env [] m = m"
| "numericMap env (key # rest) m =
     (case strToInt env key of
        Some numeric \<Rightarrow> numericMap env rest (AList.update key numeric m)
      | None \<Rightarrow> numericMap env rest m)"

definition lookupOr0 :: "enum_map \<Rightarrow> string \<Rightarrow> int" where
  "lookupOr0 m key = (case map_of m key of Some v \<Rightarrow> v | None \<Rightarrow> 0)"

text \<open>The loop that fills \<open>choices\<close>, \<open>enumRawToValue\<close> and \<open>enumValueToRaw\<close>.\<close>

fun choicesLoop ::
  "string \<Rightarrow> enum_map \<Rightarrow> string list \<Rightarrow>
   AdapterConfigOption list \<times> enum_map \<times> (int \<times> string) list \<Rightarrow>
   AdapterConfigOption list \<times> enum_map \<times> (int \<times> string) list" where
  "choicesLoop enumName fallbackMap [] acc = acc"
| "choicesLoop enumName fallbackMap (key # rest) (choices, rawToValue, valueToRaw) =
     (let mappedValue = lookupOr0 fallbackMap key in
      if mappedValue = 0 then choicesLoop enumName fallbackMap rest (choices, rawToValue, valueToRaw)
      else
        let label0 = (if enumName \<noteq> [] then enumLabelFor enumName mappedValue else []);
            label = (if label0 = [] then key else label0);
            opt = \<lparr> opt_value = number mappedValue, opt_label = label \<rparr>
        in choicesLoop enumName fallbackMap rest
             (choices @ [opt],
              AList.update key mappedValue rawToValue,
              (if map_of valueToRaw mappedValue \<noteq> None then valueToRaw
               else AList.update mappedValue key valueToRaw)))"

record EnumBlock =
  eb_meta :: jobject
  eb_choices :: "AdapterConfigOption list"
  eb_enumRawToValue :: enum_map
  eb_enumValueToRaw :: "(int \<times> string) list"

definition fallbackMapOf :: "Env \<Rightarrow> string list \<Rightarrow> enum_map \<Rightarrow> bool \<Rightarrow> enum_map" where
  "fallbackMapOf env rawKeys normalizedMap allNumeric =
     (if allNumeric then numericMap env rawKeys []
      else buildStableEnumMap rawKeys (enumMapToJson normalizedMap))"

definition enumBlock :: "Env \<Rightarrow> string \<Rightarrow> jobject \<Rightarrow> jobject \<Rightarrow> EnumBlock" where
  "enumBlock env property expose meta0 =
     (let vals = toArray (jvalue expose ''values'');
          enumName = enumNameFor property;
          (rawKeys, normalizedMap, allNumeric) =
             valuesLoop env enumName vals ([], [], vals \<noteq> []);
          fallbackMap = fallbackMapOf env rawKeys normalizedMap allNumeric;
          meta1 = (if enumName \<noteq> [] then jinsert ''enumName'' (JStr enumName) meta0 else meta0);
          meta2 = (if fallbackMap \<noteq> []
                   then jinsert ''enumMap'' (JObj (enumMapToJson fallbackMap)) meta1 else meta1);
          (choices, rawToValue, valueToRaw) = choicesLoop enumName fallbackMap rawKeys ([], [], [])
      in \<lparr> eb_meta = meta2, eb_choices = choices, eb_enumRawToValue = rawToValue,
           eb_enumValueToRaw = valueToRaw \<rparr>)"

subsection \<open>addChannelFromExpose\<close>

definition sensorFlags :: "string \<Rightarrow> ChannelKind \<Rightarrow> ChannelFlags \<Rightarrow> ChannelFlags" where
  "sensorFlags propLower kind flags =
     (let sensorConfigWritable = list_ex (\<lambda>token. containsStr propLower token) writableSensorConfigTokens;
          f1 = (if isSensorMeasurementKind kind then forceReadOnly flags else flags)
      in if kind = KindUnknown \<and> \<not> sensorConfigWritable then forceReadOnly f1 else f1)"

text \<open>The channel's \<open>minValue\<close>, \<open>maxValue\<close>, \<open>stepValue\<close> and the binding's raw range.\<close>

definition channelRange ::
  "ChannelKind \<Rightarrow> ChannelDataType \<Rightarrow> real \<Rightarrow> real \<Rightarrow> real \<Rightarrow> (real \<times> real \<times> real) \<times> (real \<times> real)" where
  "channelRange kind dataType rawMin0 rawMax0 rawStep =
     (if kind = Brightness then
        (let (rawMin, rawMax) = (if rawMax0 \<le> rawMin0 then (0, 254) else (rawMin0, rawMax0))
         in ((0, 100, (if rawMax > rawMin \<and> rawStep > 0
                       then (rawStep / (rawMax - rawMin)) * 100 else 1)),
             (rawMin, rawMax)))
      else if kind = LinkQuality then ((0, 100, 1), (rawMin0, rawMax0))
      else if kind = Battery \<and> dataType = TypeInt then
        ((0, (if rawMax0 > 0 then rawMax0 else 100), (if rawStep > 0 then rawStep else 1)),
         (rawMin0, rawMax0))
      else if dataType = TypeFloat \<or> dataType = TypeInt then
        ((rawMin0, rawMax0, rawStep), (rawMin0, rawMax0))
      else ((0, 0, 0), (rawMin0, rawMax0)))"

definition colorModeOf :: "jobject \<Rightarrow> string" where
  "colorModeOf expose =
     (let fprops = map (\<lambda>f. trimmed (toString (jvalue (toObject f) ''property'')))
                       (filter isObject (toArray (jvalue expose ''features'')));
          hasX = (''x'' \<in> set fprops);
          hasY = (''y'' \<in> set fprops);
          hasHue = (''hue'' \<in> set fprops \<or> ''h'' \<in> set fprops);
          hasSat = (''saturation'' \<in> set fprops \<or> ''s'' \<in> set fprops)
      in if hasX \<and> hasY then ''xy'' else if hasHue \<and> hasSat then ''hs'' else ''xy'')"

text \<open>
  \<open>addChannelFromExpose\<close> is cut at its four early returns; what it computes for an
  accepted expose is given field by field: \<open>exposeKind\<close>, \<open>exposeDataType\<close> and
  \<open>exposeMappedUnit\<close> are the \<open>kMappings\<close> entry or the defaults by expose type,
  \<open>exposeFlags\<close> the access flags with the sensor rule, \<open>exposeEnumBlock\<close> the block
  guarded by \<open>isEnum\<close>.
\<close>

definition exposeProperty :: "jobject \<Rightarrow> string" where
  "exposeProperty expose = trimmed (toString (jvalue expose ''property''))"

definition exposeChannelId :: "jobject \<Rightarrow> string" where
  "exposeChannelId expose =
     (if exposeEndpoint expose \<noteq> []
      then exposeProperty expose @ ''_'' @ exposeEndpoint expose
      else exposeProperty expose)"

definition exposeType :: "jobject \<Rightarrow> string" where
  "exposeType expose = trimmed (toString (jvalue expose ''type''))"

definition exposeKind :: "jobject \<Rightarrow> ChannelKind" where
  "exposeKind expose =
     (case map_of kMappings (exposeProperty expose) of
        Some (k, dt, u, sp) \<Rightarrow> k
      | None \<Rightarrow> KindUnknown)"

definition exposeDataType :: "jobject \<Rightarrow> ChannelDataType" where
  "exposeDataType expose =
     (if exposeType expose = ''enum'' then TypeEnum
      else case map_of kMappings (exposeProperty expose) of
        Some (k, dt, u, sp) \<Rightarrow> dt
      | None \<Rightarrow> if exposeType expose = ''binary'' then TypeBool else TypeFloat)"

definition exposeMappedUnit :: "jobject \<Rightarrow> string" where
  "exposeMappedUnit expose =
     (case map_of kMappings (exposeProperty expose) of
        Some (k, dt, u, sp) \<Rightarrow> u
      | None \<Rightarrow> [])"

definition exposeScalePercent :: "jobject \<Rightarrow> bool" where
  "exposeScalePercent expose =
     (case map_of kMappings (exposeProperty expose) of
        Some (k, dt, u, sp) \<Rightarrow> sp
      | None \<Rightarrow> False)"

definition exposeFlags :: "DeviceClass \<Rightarrow> jobject \<Rightarrow> ChannelFlags" where
  "exposeFlags deviceClass expose =
     (let flags0 = flagsFromAccess (toIntOr kAccessState (jvalue expose ''access''))
      in if deviceClass = Sensor
         then sensorFlags (toLower (exposeProperty expose)) (exposeKind expose) flags0
         else flags0)"

definition exposeRange :: "jobject \<Rightarrow> (real \<times> real \<times> real) \<times> (real \<times> real)" where
  "exposeRange expose =
     channelRange (exposeKind expose) (exposeDataType expose)
       (toDoubleOr 0 (jvalue expose ''value_min'')) (toDoubleOr 0 (jvalue expose ''value_max''))
       (toDoubleOr 1 (jvalue expose ''value_step''))"

definition exposeEnumBlock :: "Env \<Rightarrow> jobject \<Rightarrow> EnumBlock" where
  "exposeEnumBlock env expose =
     (if exposeType expose = ''enum'' then enumBlock env (exposeProperty expose) expose []
      else \<lparr> eb_meta = [], eb_choices = [], eb_enumRawToValue = [], eb_enumValueToRaw = [] \<rparr>)"

definition isMilliVolt :: "jobject \<Rightarrow> bool" where
  "isMilliVolt expose =
     (exposeKind expose = Voltage \<and> trimmed (toString (jvalue expose ''unit'')) = ''mV'')"

definition exposeChannel :: "Env \<Rightarrow> DeviceClass \<Rightarrow> jobject \<Rightarrow> Channel" where
  "exposeChannel env deviceClass expose =
     (let exposeUnit = trimmed (toString (jvalue expose ''unit''));
          unit1 = (if exposeMappedUnit expose = [] \<and> exposeUnit \<noteq> [] then exposeUnit
                   else exposeMappedUnit expose);
          minValue0 = fst (fst (exposeRange expose));
          maxValue0 = fst (snd (fst (exposeRange expose)));
          stepValue0 = snd (snd (fst (exposeRange expose)))
      in \<lparr> ch_name = labelFromProperty (exposeProperty expose) (toString (jvalue expose ''label'')),
           ch_id = exposeChannelId expose,
           ch_kind = exposeKind expose,
           ch_dataType = exposeDataType expose,
           ch_flags = exposeFlags deviceClass expose,
           ch_unit = (if isMilliVolt expose then ''V'' else unit1),
           ch_minValue = (if isMilliVolt expose then minValue0 / 1000 else minValue0),
           ch_maxValue = (if isMilliVolt expose then maxValue0 / 1000 else maxValue0),
           ch_stepValue = (if isMilliVolt expose \<and> stepValue0 > 0 then stepValue0 / 1000
                           else stepValue0),
           ch_meta = eb_meta (exposeEnumBlock env expose),
           ch_choices = eb_choices (exposeEnumBlock env expose) \<rparr>)"

definition exposeBinding :: "Env \<Rightarrow> DeviceClass \<Rightarrow> jobject \<Rightarrow> Z2mChannelBinding" where
  "exposeBinding env deviceClass expose =
     (let kind = exposeKind expose;
          channel = exposeChannel env deviceClass expose
      in \<lparr> b_channelId = exposeChannelId expose,
           b_property = exposeProperty expose,
           b_kind = kind,
           b_dataType = ch_dataType channel,
           b_flags = ch_flags channel,
           b_unit = (if kind = LinkQuality then ''%''
                     else if isMilliVolt expose then ''V'' else ch_unit channel),
           b_rawMin = fst (snd (exposeRange expose)),
           b_rawMax = snd (snd (exposeRange expose)),
           b_rawStep = toDoubleOr 1 (jvalue expose ''value_step''),
           b_valueScale = (if kind = LinkQuality then 100 / 255
                           else if isMilliVolt expose then 0.001 else 1),
           b_endpoint = exposeEndpoint expose,
           b_valueOn = (if kind = PowerOnOff then toString (jvalue expose ''value_on'') else []),
           b_valueOff = (if kind = PowerOnOff then toString (jvalue expose ''value_off'') else []),
           b_colorMode = (if kind = ColorRGB then colorModeOf expose else []),
           b_scalePercent = exposeScalePercent expose,
           b_isAvailability = False,
           b_enumRawToValue = eb_enumRawToValue (exposeEnumBlock env expose),
           b_enumValueToRaw = eb_enumValueToRaw (exposeEnumBlock env expose) \<rparr>)"

definition addChannelFromExpose :: "Env \<Rightarrow> jobject \<Rightarrow> Z2mDeviceEntry \<Rightarrow> Z2mDeviceEntry" where
  "addChannelFromExpose env expose entry =
     (if exposeProperty expose = [] then entry
      else if isMinMaxHelper (toLower (exposeProperty expose)) then entry
      else if map_of (e_bindingsByChannel entry) (exposeChannelId expose) \<noteq> None then entry
      else if map_of kMappings (exposeProperty expose) = None
              \<and> \<not> (exposeType expose = ''enum'' \<or> exposeType expose = ''binary''
                     \<or> exposeType expose = ''numeric'')
        then entry
      else
        entry\<lparr> e_channels :=
                   e_channels entry @ [exposeChannel env (d_deviceClass (e_device entry)) expose],
                 e_bindingsByChannel :=
                   AList.update (exposeChannelId expose)
                     (exposeBinding env (d_deviceClass (e_device entry)) expose)
                     (e_bindingsByChannel entry),
                 e_channelByProperty :=
                   (exposeProperty expose, exposeChannelId expose) # e_channelByProperty entry \<rparr>)"

subsection \<open>The exposes of a device\<close>

lemma jvalue_size:
  "jvalue obj k = JArr fs \<Longrightarrow> f \<in> set fs \<Longrightarrow> size f < Suc (size_list (size_prod (\<lambda>x. 0) size) obj)"
proof (induction obj)
  case Nil
  then show ?case by (simp add: jvalue_def)
next
  case (Cons a obj)
  obtain k' v' where a: "a = (k', v')" by (cases a)
  show ?case
  proof (cases "k' = k")
    case True
    then have "v' = JArr fs" using Cons.prems a by (simp add: jvalue_def)
    moreover have "size f \<le> size_list size fs" using Cons.prems(2) by (simp add: size_list_estimation')
    ultimately show ?thesis using a by simp
  next
    case False
    then have "jvalue obj k = JArr fs" using Cons.prems a by (simp add: jvalue_def)
    then have "size f < Suc (size_list (size_prod (\<lambda>x. 0) size) obj)"
      using Cons.prems(2) by (rule Cons.IH)
    then show ?thesis by simp
  qed
qed

function collectExposeEntries :: "json \<Rightarrow> jobject list" where
  "collectExposeEntries (JArr arr) = concat (map collectExposeEntries arr)"
| "collectExposeEntries (JObj obj) =
     (let property = trimmed (toString (jvalue obj ''property''));
          type = trimmed (toString (jvalue obj ''type''))
      in (if property \<noteq> [] then [obj] else []) @
         (if property \<noteq> [] \<and> property = ''color'' \<and> type = ''composite'' then []
          else case jvalue obj ''features'' of
            JArr fs \<Rightarrow> concat (map collectExposeEntries fs)
          | JUndefined \<Rightarrow> [] | JNull \<Rightarrow> [] | JBool b \<Rightarrow> [] | JNum r \<Rightarrow> []
          | JStr s \<Rightarrow> [] | JObj o' \<Rightarrow> []))"
| "collectExposeEntries JUndefined = []"
| "collectExposeEntries JNull = []"
| "collectExposeEntries (JBool b) = []"
| "collectExposeEntries (JNum r) = []"
| "collectExposeEntries (JStr s) = []"
  by pat_completeness auto
termination
proof (relation "measure size")
  show "wf (measure size)" by simp
next
  fix arr :: "json list" and x
  assume "x \<in> set arr"
  then have "size x \<le> size_list size arr" by (simp add: size_list_estimation')
  then show "(x, JArr arr) \<in> measure size" by simp
next
  fix obj :: jobject and x xa x3 xb
  assume "jvalue obj ''features'' = JArr x3" "xb \<in> set x3"
  then have "size xb < Suc (size_list (size_prod (\<lambda>x. 0) size) obj)" by (rule jvalue_size)
  then show "(xb, JObj obj) \<in> measure size" by simp
qed

definition inferDeviceClass :: "jobject list \<Rightarrow> DeviceClass" where
  "inferDeviceClass exposes =
     (let props = map (\<lambda>expose. toString (jvalue expose ''property'')) exposes;
          hasLight = list_ex (\<lambda>p. p = ''brightness'' \<or> p = ''color_temp'' \<or> p = ''color'') props;
          hasSwitch = list_ex (\<lambda>p. p = ''state'') props;
          hasButton = list_ex (\<lambda>p. p = ''action'') props;
          hasSensor = list_ex (\<lambda>p. p = ''temperature'' \<or> p = ''humidity'' \<or> p = ''illuminance''
                                   \<or> p = ''illumination'' \<or> p = ''occupancy'' \<or> p = ''motion''
                                   \<or> p = ''co2'') props
      in if hasLight then Light
         else if hasSwitch then Switch
         else if hasButton then Button
         else if hasSensor then Sensor
         else ClassUnknown)"

subsection \<open>buildDeviceEntry\<close>

definition insertIf :: "bool \<Rightarrow> string \<Rightarrow> json \<Rightarrow> jobject \<Rightarrow> jobject" where
  "insertIf c k v meta = (if c then jinsert k v meta else meta)"

definition availabilityChannel :: Channel where
  "availabilityChannel = newChannel\<lparr> ch_id := ''connectivity'', ch_name := ''Connectivity'',
     ch_kind := ConnectivityStatusKind, ch_dataType := TypeEnum,
     ch_flags := ChannelFlagReadable OR ChannelFlagReportable OR ChannelFlagRetained \<rparr>"

definition availabilityBinding :: Z2mChannelBinding where
  "availabilityBinding = newBinding\<lparr> b_channelId := ch_id availabilityChannel,
     b_property := ''availability'', b_kind := ch_kind availabilityChannel,
     b_dataType := ch_dataType availabilityChannel, b_flags := ch_flags availabilityChannel,
     b_isAvailability := True \<rparr>"

definition updateChannel :: Channel where
  "updateChannel = newChannel\<lparr> ch_id := ''device_software_update'',
     ch_name := ''Firmware Update'', ch_kind := DeviceSoftwareUpdate, ch_dataType := TypeEnum,
     ch_flags := ChannelFlagDefaultRead \<rparr>"

definition updateBinding :: Z2mChannelBinding where
  "updateBinding = newBinding\<lparr> b_channelId := ch_id updateChannel, b_property := ''update'',
     b_kind := ch_kind updateChannel, b_dataType := ch_dataType updateChannel,
     b_flags := ch_flags updateChannel \<rparr>"

definition deviceMeta :: "jobject \<Rightarrow> string \<Rightarrow> jobject" where
  "deviceMeta obj mqttId =
     (let def = toObject (jvalue obj ''definition'');
          model = trimmed (toString (jvalue def ''model''));
          ieeeAddress = trimmed (toString (jvalue obj ''ieee_address''));
          deviceType = toString (jvalue obj ''type'');
          modelId = toString (jvalue obj ''model_id'');
          powerSource = toString (jvalue obj ''power_source'');
          manufacturer = toString (jvalue obj ''manufacturer'');
          softwareBuild = toString (jvalue obj ''software_build_id'');
          dateCode = toString (jvalue obj ''date_code'');
          availabilityValue = jvalue obj ''availability'';
          availabilityState0 = trimmed (toString availabilityValue);
          availabilityState =
            (if availabilityState0 = [] \<and> isObject availabilityValue
             then trimmed (toString (jvalue (toObject availabilityValue) ''state''))
             else availabilityState0);
          m1 = insertIf (def \<noteq> []) ''description'' (JStr (toString (jvalue def ''description''))) [];
          m2 = insertIf (def \<noteq> [] \<and> model \<noteq> []) ''iconUrl''
                 (JStr (''https://www.zigbee2mqtt.io/images/devices/'' @ model @ ''.png'')) m1;
          m3 = jinsert ''friendly_name'' (JStr mqttId) m2;
          m4 = insertIf (ieeeAddress \<noteq> []) ''ieee_address'' (JStr ieeeAddress) m3;
          m5 = jinsert ''type'' (JStr deviceType) m4;
          m6 = insertIf (modelId \<noteq> []) ''model_id'' (JStr modelId) m5;
          m7 = insertIf (powerSource \<noteq> []) ''power_source'' (JStr powerSource) m6;
          m8 = insertIf (manufacturer \<noteq> []) ''manufacturer'' (JStr manufacturer) m7;
          m9 = insertIf (softwareBuild \<noteq> []) ''software_build_id'' (JStr softwareBuild) m8;
          m10 = insertIf (dateCode \<noteq> []) ''date_code'' (JStr dateCode) m9;
          m11 = insertIf (equalsCI deviceType ''Coordinator'') ''coordinator'' (JBool True) m10;
          m12 = insertIf (jcontains obj ''interview_completed'') ''interview_completed''
                  (jvalue obj ''interview_completed'') m11;
          m13 = insertIf (jcontains obj ''interviewing'') ''interviewing''
                  (jvalue obj ''interviewing'') m12;
          m14 = insertIf (jcontains obj ''supported'') ''supported'' (jvalue obj ''supported'') m13;
          m15 = insertIf (jcontains obj ''disabled'') ''disabled'' (jvalue obj ''disabled'') m14
      in insertIf (availabilityState \<noteq> []) ''availability'' (JStr availabilityState) m15)"

definition buildDeviceEntry :: "Env \<Rightarrow> jobject \<Rightarrow> Z2mDeviceEntry" where
  "buildDeviceEntry env obj =
     (let mqttId = trimmed (toString (jvalue obj ''friendly_name''));
          powerSource = toString (jvalue obj ''power_source'');
          def = toObject (jvalue obj ''definition'');
          ieeeAddress = trimmed (toString (jvalue obj ''ieee_address''));
          exposes = (if jcontains def ''exposes''
                     then collectExposeEntries (jvalue def ''exposes'') else []);
          device = \<lparr> d_name = mqttId,
                     d_deviceClass = inferDeviceClass exposes,
                     d_flags = (if equalsCI powerSource ''Battery''
                                then DeviceFlagWireless OR DeviceFlagBattery
                                else DeviceFlagWireless),
                     d_id = (if ieeeAddress \<noteq> [] then ieeeAddress else mqttId),
                     d_manufacturer = (if def \<noteq> [] then toString (jvalue def ''vendor'') else []),
                     d_firmware = [],
                     d_model = (if def \<noteq> [] then toString (jvalue def ''model'') else []),
                     d_meta = deviceMeta obj mqttId \<rparr>;
          entry0 = newEntry\<lparr> e_device := device, e_mqttId := mqttId \<rparr>;
          entry1 = fold (addChannelFromExpose env) exposes entry0
      in entry1\<lparr> e_channels := e_channels entry1 @ [availabilityChannel, updateChannel],
                   e_bindingsByChannel :=
                     AList.update (ch_id updateChannel) updateBinding
                       (AList.update (ch_id availabilityChannel) availabilityBinding
                          (e_bindingsByChannel entry1)),
                   e_channelByProperty :=
                     (b_property availabilityBinding, ch_id availabilityChannel)
                       # e_channelByProperty entry1 \<rparr>)"





section \<open>State ingest\<close>

definition actionToButtonEvent :: "string \<Rightarrow> ButtonEventCode" where
  "actionToButtonEvent action =
     (let v = toLower action in
      if containsStr v ''double'' then DoublePress
      else if containsStr v ''triple'' then TriplePress
      else if containsStr v ''quad'' then QuadruplePress
      else if containsStr v ''quint'' then QuintuplePress
      else if containsStr v ''long_release'' \<or> containsStr v ''hold_release'' then LongPressRelease
      else if containsStr v ''release'' then ShortPressRelease
      else if containsStr v ''hold'' \<or> containsStr v ''long'' then LongPress
      else if containsStr v ''single'' \<or> containsStr v ''press'' then InitialPress
      else ButtonNone)"

text \<open>
  The milliseconds that a \<open>last_seen\<close> value denotes, 0 when it denotes none. The cast of
  a positive \<open>double\<close> to \<open>qint64\<close> drops the fraction.
\<close>

definition lastSeenMsFromValue :: "Env \<Rightarrow> json \<Rightarrow> int" where
  "lastSeenMsFromValue env val =
     (if isDouble val then
        (let raw = toDouble val in
         if raw > 1000000000000 then \<lfloor>raw\<rfloor>
         else if raw > 0 then \<lfloor>raw * 1000\<rfloor>
         else 0)
      else if isString val then
        (case fromIsoDate env (toString val) of Some ms \<Rightarrow> ms | None \<Rightarrow> 0)
      else 0)"

definition kStaleThresholdMs :: int where
  "kStaleThresholdMs = 5 * 60 * 1000"

text \<open>The enum decoding shared by \<open>AmbientLightLevel\<close> and the \<open>Unknown\<close> kind of type \<open>Enum\<close>.\<close>

definition decodeEnum :: "Z2mChannelBinding \<Rightarrow> json \<Rightarrow> QVariant" where
  "decodeEnum binding val =
     (if isString val then
        (case map_of (b_enumRawToValue binding) (toString val) of
           Some v \<Rightarrow> VInt v
         | None \<Rightarrow> VString (toString val))
      else if isDouble val then VInt (toInt val)
      else VInvalid)"

text \<open>The \<open>switch (binding.kind)\<close> of \<open>handleDeviceStatePayload\<close>: \<open>outValue\<close> for a value.\<close>

definition decodeValue :: "Z2mChannelBinding \<Rightarrow> json \<Rightarrow> QVariant" where
  "decodeValue binding val =
     (let kind = b_kind binding in
      if kind = PowerOnOff then
        (if isBool val then VBool (toBoolOr False val)
         else if isString val then
           (if b_valueOn binding \<noteq> [] \<or> b_valueOff binding \<noteq> []
            then VBool (equalsCI (toString val) (b_valueOn binding))
            else VBool (equalsCI (toString val) ''ON''))
         else if isDouble val then VBool (toDouble val \<noteq> 0)
         else VInvalid)
      else if kind = Brightness then
        VDouble (scaleToPercent (toDouble val) (b_rawMin binding) (b_rawMax binding))
      else if kind = ColorTemperature then VDouble (toDouble val)
      else if kind = ColorRGB then
        (if \<not> isObject val then VInvalid
         else
           let colorObj = toObject val in
           if b_colorMode binding = ''xy'' then
             VColor (colorFromXy (toDouble (jvalue colorObj ''x'')) (toDouble (jvalue colorObj ''y'')) 1)
           else if b_colorMode binding = ''hs'' then
             (let h = toDoubleOr (toDouble (jvalue colorObj ''h'')) (jvalue colorObj ''hue'');
                  sat = toDoubleOr (toDouble (jvalue colorObj ''s'')) (jvalue colorObj ''saturation'')
              in VColor (hsvToColor h (sat / 100) 1))
           else VInvalid)
      else if kind \<in> set [Temperature, Humidity, Illuminance, CO2, Power, Voltage, Current, Energy]
        then VDouble (toDouble val * b_valueScale binding)
      else if kind = AmbientLightLevel then decodeEnum binding val
      else if kind = Duration \<or> kind = SignalStrength \<or> kind = Battery then VInt (toInt val)
      else if kind = LinkQuality then VDouble (qBound 0 (toDouble val * b_valueScale binding) 100)
      else if kind = Motion then
        (if isBool val then VBool (toBoolOr False val)
         else if isString val then
           (let st = toLower (toString val)
            in VBool (st = ''true'' \<or> st = ''on'' \<or> st = ''occupied''))
         else if isDouble val then VBool (toDouble val \<noteq> 0)
         else VInvalid)
      else if kind = ButtonEvent then
        (if isString val then VInt (buttonEventInt (actionToButtonEvent (toString val)))
         else VInvalid)
      else if kind = KindUnknown then
        (if b_dataType binding = TypeBool then
           (if isBool val then VBool (toBoolOr False val)
            else if isDouble val then VBool (toDouble val \<noteq> 0)
            else if isString val then VBool (toLower (toString val) = ''true'')
            else VInvalid)
         else if b_dataType binding = TypeInt then VInt (toInt val)
         else if b_dataType binding = TypeFloat then VDouble (toDouble val * b_valueScale binding)
         else if b_dataType binding = TypeEnum then decodeEnum binding val
         else VInvalid)
      else VInvalid)"

definition softwareUpdatePayload :: "Env \<Rightarrow> jobject \<Rightarrow> jobject" where
  "softwareUpdatePayload env updateObj =
     (let status = toString (jvalue updateObj ''state'');
          currentVersion = (if jcontains updateObj ''installed_version''
                            then numberF0 env (toDouble (jvalue updateObj ''installed_version''))
                            else []);
          targetVersion = (if jcontains updateObj ''latest_version''
                           then numberF0 env (toDouble (jvalue updateObj ''latest_version''))
                           else []);
          p1 = insertIf (status \<noteq> []) ''status'' (JStr status) [];
          p2 = insertIf (currentVersion \<noteq> []) ''currentVersion'' (JStr currentVersion) p1
      in insertIf (targetVersion \<noteq> []) ''targetVersion'' (JStr targetVersion) p2)"

text \<open>One turn of the second loop over the bindings: the effects for one binding.\<close>

definition bindingUpdate ::
  "Env \<Rightarrow> string \<Rightarrow> jobject \<Rightarrow> int \<Rightarrow> Z2mChannelBinding \<Rightarrow> Effect list" where
  "bindingUpdate env externalId payload tsMs binding =
     (if b_isAvailability binding then []
      else if b_channelId binding = ''device_software_update'' then
        (if isObject (jvalue payload ''update'')
         then [ChannelStateUpdated externalId (b_channelId binding)
                 (VJsonObject (softwareUpdatePayload env (toObject (jvalue payload ''update'')))) tsMs]
         else [])
      else if jvalue payload (b_property binding) = JUndefined then []
      else
        let outValue = decodeValue binding (jvalue payload (b_property binding))
        in if \<not> isValid outValue then []
           else [ChannelStateUpdated externalId (b_channelId binding) outValue tsMs])"

text \<open>The first binding with \<open>isAvailability\<close>, where the loops that look for it break.\<close>

definition availabilityBindingOf :: "Z2mDeviceEntry \<Rightarrow> Z2mChannelBinding option" where
  "availabilityBindingOf entry =
     map_option snd (find (\<lambda>(k, b). b_isAvailability b) (e_bindingsByChannel entry))"

text \<open>
  The connectivity that a state payload implies: from \<open>last_seen\<close>, overridden by
  \<open>availability\<close>, and \<open>Connected\<close> for a non-empty payload that gives neither.
\<close>

definition payloadConnectivity :: "Env \<Rightarrow> jobject \<Rightarrow> int \<Rightarrow> ConnectivityStatus option" where
  "payloadConnectivity env payload tsMs =
     (let c1 = (if jcontains payload ''last_seen''
                then (let lastSeenMs = lastSeenMsFromValue env (jvalue payload ''last_seen'')
                      in if lastSeenMs > 0
                         then Some (if tsMs - lastSeenMs > kStaleThresholdMs
                                    then Disconnected else Connected)
                         else None)
                else None);
          c2 = (if jcontains payload ''availability'' then
                  (let availabilityValue = jvalue payload ''availability'';
                       st0 = toLower (trimmed (toString availabilityValue));
                       st = (if st0 = [] \<and> isObject availabilityValue
                             then toLower (trimmed (toString
                                    (jvalue (toObject availabilityValue) ''state'')))
                             else st0)
                   in if st = ''online'' then Some Connected
                      else if st = ''offline'' then Some Disconnected
                      else c1)
                else c1)
      in if c2 = None \<and> payload \<noteq> [] then Some Connected else c2)"

definition payloadMeta :: "jobject \<Rightarrow> jobject \<Rightarrow> jobject" where
  "payloadMeta payload meta =
     (let m1 = insertIf (jcontains payload ''update'' \<and> isObject (jvalue payload ''update''))
                 ''update'' (JObj (toObject (jvalue payload ''update''))) meta
      in insertIf (jcontains payload ''last_seen'') ''last_seen'' (jvalue payload ''last_seen'') m1)"

text \<open>
  The body of \<open>handleDeviceStatePayload\<close> for a known device: the entry with its meta
  patched, and the signals in order.
\<close>

definition applyStatePayload ::
  "Env \<Rightarrow> Z2mDeviceEntry \<Rightarrow> jobject \<Rightarrow> int \<Rightarrow> Z2mDeviceEntry \<times> Effect list" where
  "applyStatePayload env entry payload tsMs =
     (let externalId = d_id (e_device entry);
          metaChanged = ((jcontains payload ''update'' \<and> isObject (jvalue payload ''update''))
                         \<or> jcontains payload ''last_seen'');
          entry1 = entry\<lparr> e_device :=
                     (e_device entry)\<lparr> d_meta := payloadMeta payload (d_meta (e_device entry)) \<rparr> \<rparr>;
          es1 = (if metaChanged then [DeviceUpdated (e_device entry1) (e_channels entry1)] else []);
          es2 = (case availabilityBindingOf entry1 of
                   None \<Rightarrow> []
                 | Some binding \<Rightarrow>
                     (case payloadConnectivity env payload tsMs of
                        None \<Rightarrow> []
                      | Some status \<Rightarrow>
                          [ChannelStateUpdated externalId (b_channelId binding)
                             (VInt (connectivityInt status)) tsMs]));
          es3 = concat (map (\<lambda>(k, binding). bindingUpdate env externalId payload tsMs binding)
                          (e_bindingsByChannel entry1))
      in (entry1, es1 @ es2 @ es3))"

definition handleDeviceStatePayload ::
  "Env \<Rightarrow> string \<Rightarrow> jobject \<Rightarrow> int \<Rightarrow> Z2mAdapter \<Rightarrow> Z2mAdapter \<times> Effect list" where
  "handleDeviceStatePayload env deviceId payload tsMs s =
     (case map_of (m_devices s) deviceId of
        None \<Rightarrow>
          (s\<lparr> m_pendingStatePayloads := AList.update deviceId payload (m_pendingStatePayloads s) \<rparr>,
           [])
      | Some entry \<Rightarrow>
          (case applyStatePayload env entry payload tsMs of
             (entry1, es) \<Rightarrow>
               (s\<lparr> m_devices := AList.update deviceId entry1 (m_devices s) \<rparr>,
                StatePayloadApplied deviceId payload # es)))"

definition availabilityStatus :: "string \<Rightarrow> ConnectivityStatus" where
  "availabilityStatus payload =
     (let st = toLower (trimmed payload) in
      if st = ''online'' then Connected
      else if st = ''offline'' then Disconnected
      else StatusUnknown)"

definition handleAvailabilityPayload ::
  "string \<Rightarrow> string \<Rightarrow> int \<Rightarrow> Z2mAdapter \<Rightarrow> Z2mAdapter \<times> Effect list" where
  "handleAvailabilityPayload deviceId payload tsMs s =
     (case map_of (m_devices s) deviceId of
        None \<Rightarrow> (s, [])
      | Some entry \<Rightarrow>
          (case availabilityBindingOf entry of
             None \<Rightarrow> (s, [])
           | Some binding \<Rightarrow>
               (s, [ChannelStateUpdated (d_id (e_device entry)) (b_channelId binding)
                      (VInt (connectivityInt (availabilityStatus payload))) tsMs])))"

section \<open>Bridge topics\<close>

definition handleBridgeInfoPayload ::
  "jobject \<Rightarrow> int \<Rightarrow> Z2mAdapter \<Rightarrow> Z2mAdapter \<times> Effect list" where
  "handleBridgeInfoPayload payload tsMs s =
     (if m_coordinatorId s = [] then (s\<lparr> m_pendingBridgeInfo := payload \<rparr>, [])
      else
        let coordinatorMqttId = resolveMqttId s (m_coordinatorId s) in
        case map_of (m_devices s) coordinatorMqttId of
          None \<Rightarrow> (s\<lparr> m_pendingBridgeInfo := payload \<rparr>, [])
        | Some entry \<Rightarrow>
            let coordinator = toObject (jvalue payload ''coordinator'');
                coordinatorMeta = toObject (jvalue coordinator ''meta'');
                manufacturer = toString (jvalue coordinatorMeta ''manufacturer'');
                model = toString (jvalue coordinatorMeta ''model'');
                firmware0 = toString (jvalue coordinatorMeta ''revision'');
                firmware1 = (if firmware0 = [] then toString (jvalue coordinatorMeta ''firmware'')
                             else firmware0);
                firmware = (if firmware1 = [] then toString (jvalue coordinatorMeta ''version'')
                            else firmware1);
                serial = toObject (jvalue (toObject (jvalue payload ''config'')) ''serial'');
                serialPort = trimmed (toString (jvalue serial ''port''));
                serialAdapter = trimmed (toString (jvalue serial ''adapter''));
                z2mVersion = toString (jvalue payload ''version'');
                z2mCommit = toString (jvalue payload ''commit'');
                dev = e_device entry;
                meta1 = jinsert ''coordinator'' (JObj coordinator) (d_meta dev);
                meta2 = insertIf (serialPort \<noteq> []) ''serial_port'' (JStr serialPort) meta1;
                meta3 = insertIf (serialAdapter \<noteq> []) ''serial_adapter'' (JStr serialAdapter) meta2;
                updated = dev\<lparr> d_manufacturer := (if manufacturer \<noteq> [] then manufacturer
                                                   else d_manufacturer dev),
                               d_model := (if model \<noteq> [] then model else d_model dev),
                               d_firmware := (if firmware \<noteq> [] then firmware else d_firmware dev),
                               d_deviceClass := Gateway,
                               d_meta := meta3 \<rparr>;
                entry1 = entry\<lparr> e_device := updated \<rparr>;
                p1 = jinsert ''bridge_info'' (JObj payload) [];
                p2 = insertIf (z2mVersion \<noteq> []) ''z2m_version'' (JStr z2mVersion) p1;
                p3 = insertIf (z2mCommit \<noteq> []) ''z2m_commit'' (JStr z2mCommit) p2;
                p4 = insertIf (jcontains payload ''permit_join'') ''permit_join''
                       (jvalue payload ''permit_join'') p3;
                metaPatch = insertIf (jcontains payload ''log_level'') ''log_level''
                              (jvalue payload ''log_level'') p4;
                es1 = [DeviceUpdated (e_device entry1) (e_channels entry1),
                       AdapterMetaUpdated metaPatch];
                es2 = (if m_mqttConnected s \<and> m_bridgeOnline s then
                         (case availabilityBindingOf entry1 of
                            None \<Rightarrow> []
                          | Some binding \<Rightarrow>
                              [ChannelStateUpdated (m_coordinatorId s) (b_channelId binding)
                                 (VInt (connectivityInt Connected)) tsMs])
                       else []);
                es3 = (if isObject (jvalue payload ''update'') then
                         (let updateObj = toObject (jvalue payload ''update'');
                              status = toString (jvalue updateObj ''state'');
                              targetVersion = toString (jvalue updateObj ''version'');
                              u1 = insertIf (status \<noteq> []) ''status'' (JStr status) [];
                              updatePayload = insertIf (targetVersion \<noteq> []) ''targetVersion''
                                                (JStr targetVersion) u1
                          in case map_of (e_bindingsByChannel entry1) ''device_software_update'' of
                               None \<Rightarrow> []
                             | Some binding \<Rightarrow>
                                 [ChannelStateUpdated (m_coordinatorId s) (b_channelId binding)
                                    (VJsonObject updatePayload) tsMs])
                       else [])
            in (s\<lparr> m_devices := AList.update coordinatorMqttId entry1 (m_devices s) \<rparr>,
                es1 @ es2 @ es3))"

subsection \<open>One element of a \<open>bridge/devices\<close> array\<close>

definition deviceFriendlyName :: "json \<Rightarrow> string" where
  "deviceFriendlyName val = trimmed (toString (jvalue (toObject val) ''friendly_name''))"

definition deviceIeee :: "json \<Rightarrow> string" where
  "deviceIeee val = trimmed (toString (jvalue (toObject val) ''ieee_address''))"

text \<open>An element that the loop builds or updates an entry for, instead of skipping or removing.\<close>

definition deviceUsable :: "json \<Rightarrow> bool" where
  "deviceUsable val =
     (isObject val \<and> deviceFriendlyName val \<noteq> []
      \<and> toBoolOr True (jvalue (toObject val) ''interview_completed'')
      \<and> toBoolOr True (jvalue (toObject val) ''supported''))"

text \<open>The branch for \<open>!interviewCompleted || !supported\<close>.\<close>

definition dropDevice :: "json \<Rightarrow> Z2mAdapter \<Rightarrow> Z2mAdapter \<times> Effect list" where
  "dropDevice val s =
     (let deviceId = deviceFriendlyName val;
          ieeeAddress = deviceIeee val;
          existingMqttId = (if ieeeAddress = [] then deviceId
                            else case map_of (m_mqttByExternal s) ieeeAddress of
                              Some m \<Rightarrow> m
                            | None \<Rightarrow> deviceId);
          (s1, es) =
            (case map_of (m_devices s) existingMqttId of
               None \<Rightarrow> (s, [])
             | Some existing \<Rightarrow>
                 (s\<lparr> m_mqttByExternal :=
                        (if d_id (e_device existing) \<noteq> []
                         then AList.delete (d_id (e_device existing)) (m_mqttByExternal s)
                         else m_mqttByExternal s),
                      m_devices := AList.delete existingMqttId (m_devices s) \<rparr>,
                  [DeviceRemoved (d_id (e_device existing))]))
      in (s1\<lparr> m_pendingStatePayloads := AList.delete existingMqttId (m_pendingStatePayloads s1) \<rparr>,
          es))"

definition availabilityFromValue :: "json \<Rightarrow> string" where
  "availabilityFromValue val =
     (if isString val then trimmed (toString val)
      else if isObject val then trimmed (toString (jvalue (toObject val) ''state''))
      else [])"

text \<open>
  The branch that builds or updates the entry. \<open>previousMqttId\<close> is empty when the IEEE
  address is empty or not mapped.
\<close>

definition previousMqttIdOf :: "Z2mAdapter \<Rightarrow> json \<Rightarrow> string" where
  "previousMqttIdOf s val =
     (if deviceIeee val = [] then []
      else case map_of (m_mqttByExternal s) (deviceIeee val) of Some m \<Rightarrow> m | None \<Rightarrow> [])"

definition entryFor :: "Env \<Rightarrow> json \<Rightarrow> Z2mAdapter \<Rightarrow> Z2mDeviceEntry" where
  "entryFor env val s =
     (let deviceId = deviceFriendlyName val;
          previousMqttId = previousMqttIdOf s val
      in case (if previousMqttId \<noteq> [] then map_of (m_devices s) previousMqttId else None) of
           Some existing \<Rightarrow>
             existing\<lparr> e_mqttId := deviceId,
                       e_device := (e_device existing)\<lparr>
                          d_name := deviceId,
                          d_meta := jinsert ''friendly_name'' (JStr deviceId)
                                      (d_meta (e_device existing)) \<rparr> \<rparr>
         | None \<Rightarrow> buildDeviceEntry env (toObject val))"

definition migratePending :: "string \<Rightarrow> string \<Rightarrow> (string \<times> jobject) list \<Rightarrow> (string \<times> jobject) list" where
  "migratePending previousMqttId deviceId pending =
     (case map_of pending previousMqttId of
        None \<Rightarrow> pending
      | Some payload \<Rightarrow> AList.delete previousMqttId (AList.update deviceId payload pending))"

definition upsertDevice :: "Env \<Rightarrow> json \<Rightarrow> Z2mAdapter \<Rightarrow> Z2mAdapter \<times> Effect list" where
  "upsertDevice env val s =
     (let obj = toObject val;
          deviceId = deviceFriendlyName val;
          ieeeAddress = deviceIeee val;
          previousMqttId = previousMqttIdOf s val;
          renameDetected = (previousMqttId \<noteq> [] \<and> previousMqttId \<noteq> deviceId);
          entry = entryFor env val s;
          s1 = (if renameDetected \<and> map_of (m_devices s) previousMqttId \<noteq> None
                then s\<lparr> m_devices := AList.delete previousMqttId (m_devices s) \<rparr> else s);
          s2 = (if renameDetected
                then s1\<lparr> m_pendingStatePayloads :=
                           migratePending previousMqttId deviceId (m_pendingStatePayloads s1) \<rparr>
                else s1);
          (s3, es3) =
            (case (if ieeeAddress \<noteq> [] then map_of (m_pendingRename s2) ieeeAddress else None) of
               Some pending \<Rightarrow>
                 if pr_targetName pending = e_mqttId entry
                 then (s2\<lparr> m_pendingRename := AList.delete ieeeAddress (m_pendingRename s2) \<rparr>,
                       [CmdResult (cmdResponse (pr_cmdId pending) (now env) Success [])])
                 else (s2, [])
             | None \<Rightarrow> (s2, []));
          s4 = s3\<lparr> m_devices := AList.update (e_mqttId entry) entry (m_devices s3),
                    m_mqttByExternal :=
                      (if d_id (e_device entry) \<noteq> []
                       then AList.update (d_id (e_device entry)) (e_mqttId entry) (m_mqttByExternal s3)
                       else m_mqttByExternal s3) \<rparr>;
          es4 = [DeviceUpdated (e_device entry) (e_channels entry)];
          (s5, es5) =
            (case map_of (m_pendingStatePayloads s4) (e_mqttId entry) of
               None \<Rightarrow> (s4, [])
             | Some pendingPayload \<Rightarrow>
                 handleDeviceStatePayload env (e_mqttId entry) pendingPayload (now env)
                   (s4\<lparr> m_pendingStatePayloads :=
                          AList.delete (e_mqttId entry) (m_pendingStatePayloads s4) \<rparr>));
          availability0 = availabilityFromValue (jvalue obj ''availability'');
          availability = (if availability0 = []
                          then trimmed (toString (jvalue obj ''availability_state''))
                          else availability0);
          lastSeenMs = lastSeenMsFromValue env (jvalue obj ''last_seen'');
          es6 = (case availabilityBindingOf entry of
                   None \<Rightarrow> []
                 | Some binding \<Rightarrow>
                     [AvailabilityDefaultScheduled availability lastSeenMs (d_id (e_device entry))
                        (b_channelId binding)]);
          (s7, es7) =
            (if equalsCI (toString (jvalue obj ''type'')) ''Coordinator'' then
               (let s6 = s5\<lparr> m_coordinatorId := d_id (e_device entry) \<rparr> in
                if m_pendingBridgeInfo s6 \<noteq> [] then
                  (case handleBridgeInfoPayload (m_pendingBridgeInfo s6) (now env) s6 of
                     (s6', es) \<Rightarrow> (s6'\<lparr> m_pendingBridgeInfo := [] \<rparr>, es))
                else (s6, []))
             else (s5, []))
      in (s7, es3 @ es4 @ es5 @ es6 @ es7))"

text \<open>One turn of the loop over the array, with the set \<open>seen\<close>.\<close>

definition processDevice ::
  "Env \<Rightarrow> json \<Rightarrow> Z2mAdapter \<times> string list \<Rightarrow> (Z2mAdapter \<times> string list) \<times> Effect list" where
  "processDevice env val st =
     (case st of (s, seen) \<Rightarrow>
        if \<not> isObject val then ((s, seen), [])
        else if deviceFriendlyName val = [] then ((s, seen), [])
        else if \<not> toBoolOr True (jvalue (toObject val) ''interview_completed'')
                \<or> \<not> toBoolOr True (jvalue (toObject val) ''supported'')
          then (case dropDevice val s of (s1, es) \<Rightarrow> ((s1, seen), es))
        else (case upsertDevice env val s of
                (s1, es) \<Rightarrow> ((s1, deviceFriendlyName val # seen), es)))"

fun devicesLoop ::
  "Env \<Rightarrow> json list \<Rightarrow> Z2mAdapter \<times> string list \<Rightarrow> (Z2mAdapter \<times> string list) \<times> Effect list" where
  "devicesLoop env [] st = (st, [])"
| "devicesLoop env (val # rest) st =
     (case processDevice env val st of
        (st1, es1) \<Rightarrow>
          (case devicesLoop env rest st1 of
             (st2, es2) \<Rightarrow> (st2, es1 @ es2)))"

text \<open>The removal loop of a full snapshot, over \<open>m_devices\<close> in iteration order.\<close>

fun sweepLoop ::
  "string list \<Rightarrow> (string \<times> Z2mDeviceEntry) list \<Rightarrow>
   (string \<times> Z2mDeviceEntry) list \<times> (string \<times> string) list \<times> Effect list \<Rightarrow>
   (string \<times> Z2mDeviceEntry) list \<times> (string \<times> string) list \<times> Effect list" where
  "sweepLoop seen [] acc = acc"
| "sweepLoop seen ((k, entry) # rest) (kept, byExternal, es) =
     (if k \<notin> set seen then
        sweepLoop seen rest
          (kept,
           (if d_id (e_device entry) \<noteq> [] then AList.delete (d_id (e_device entry)) byExternal
            else byExternal),
           es @ [DeviceRemoved (d_id (e_device entry))])
      else sweepLoop seen rest (kept @ [(k, entry)], byExternal, es))"

definition handleBridgeDevicesPayload ::
  "Env \<Rightarrow> json list \<Rightarrow> bool \<Rightarrow> Z2mAdapter \<Rightarrow> Z2mAdapter \<times> Effect list" where
  "handleBridgeDevicesPayload env devices fullSnapshot s =
     (case devicesLoop env devices (s, []) of
        ((s1, seen), es1) \<Rightarrow>
          let (s2, es2) =
                (if fullSnapshot then
                   (case sweepLoop seen (m_devices s1) ([], m_mqttByExternal s1, []) of
                      (kept, byExternal, es) \<Rightarrow>
                        (s1\<lparr> m_devices := kept, m_mqttByExternal := byExternal \<rparr>, es))
                 else (s1, []));
              (s3, es3) =
                (if m_pendingFullSync s2
                 then (s2\<lparr> m_pendingFullSync := False \<rparr>, [FullSyncCompleted])
                 else (s2, []))
          in (s3, es1 @ es2 @ es3))"

section \<open>Message router\<close>

text \<open>
  An MQTT message as the router reads it: the text \<open>QString::fromUtf8(message)\<close> and the
  document \<open>QJsonDocument::fromJson(message)\<close>, \<open>None\<close> for a parse error. A document is
  an array or an object.
\<close>

record Message =
  msg_text :: string
  msg_doc :: "json option"

definition docObject :: "Message \<Rightarrow> jobject option" where
  "docObject msg = (case msg_doc msg of Some (JObj obj) \<Rightarrow> Some obj | _ \<Rightarrow> None)"

text \<open>The three shapes of a device list: an array, an object with \<open>data\<close>, an \<open>ok\<close> response with \<open>result\<close>.\<close>

definition devicesOfDoc :: "json \<Rightarrow> json list" where
  "devicesOfDoc doc =
     (if isArray doc then toArray doc
      else if isObject doc then
        (let obj = toObject doc in
         if isArray (jvalue obj ''data'') then toArray (jvalue obj ''data'')
         else if toLower (trimmed (toString (jvalue obj ''status''))) = ''ok''
                 \<and> jcontains obj ''result'' \<and> isArray (jvalue obj ''result'')
           then toArray (jvalue obj ''result'')
         else [])
      else [])"

subsection \<open>Rename responses\<close>

definition renameMatches :: "string \<Rightarrow> string \<Rightarrow> Z2mAdapter \<Rightarrow> string \<times> PendingRename \<Rightarrow> bool" where
  "renameMatches to from s p =
     (case p of (ieee, pending) \<Rightarrow>
        (to \<noteq> [] \<and> pr_targetName pending = to)
        \<or> (from \<noteq> [] \<and> (case map_of (m_mqttByExternal s) ieee of Some m \<Rightarrow> m | None \<Rightarrow> []) = from))"

definition renameEffects :: "Env \<Rightarrow> string \<Rightarrow> Z2mAdapter \<Rightarrow> string \<times> PendingRename \<Rightarrow> Effect list" where
  "renameEffects env to s p =
     (case p of (ieee, pending) \<Rightarrow>
        let currentMqtt = (case map_of (m_mqttByExternal s) ieee of Some m \<Rightarrow> m | None \<Rightarrow> []);
            mqttId = (if to \<noteq> [] then to else currentMqtt)
        in CmdResult (cmdResponse (pr_cmdId pending) (now env) Success [])
           # (case map_of (m_devices s) mqttId of
                None \<Rightarrow> []
              | Some entry \<Rightarrow>
                  (case availabilityBindingOf entry of
                     None \<Rightarrow> []
                   | Some binding \<Rightarrow>
                       [ChannelStateUpdated (d_id (e_device entry)) (b_channelId binding)
                          (VInt (connectivityInt Connected)) (now env)])))"

definition handleRenameResponse :: "Env \<Rightarrow> jobject \<Rightarrow> Z2mAdapter \<Rightarrow> Z2mAdapter \<times> Effect list" where
  "handleRenameResponse env resp s =
     (let data = toObject (jvalue resp ''data'');
          status = toLower (trimmed (toString (jvalue resp ''status'')));
          from = trimmed (toString (jvalue data ''from''));
          to = trimmed (toString (jvalue data ''to''))
      in if status = ''ok'' then
           (s\<lparr> m_pendingRename := filter (\<lambda>p. \<not> renameMatches to from s p) (m_pendingRename s) \<rparr>,
            concat (map (renameEffects env to s)
                      (filter (renameMatches to from s) (m_pendingRename s))))
         else (s, []))"

definition handleDeviceGetResponse :: "Env \<Rightarrow> jobject \<Rightarrow> Z2mAdapter \<Rightarrow> Z2mAdapter \<times> Effect list" where
  "handleDeviceGetResponse env resp s =
     (let data = toObject (jvalue resp ''data'');
          deviceObj = (if data = [] then resp else data);
          ieee = trimmed (toString (jvalue deviceObj ''ieee_address''));
          friendly = trimmed (toString (jvalue deviceObj ''friendly_name''))
      in case (if ieee \<noteq> [] then map_of (m_pendingRename s) ieee else None) of
           None \<Rightarrow> (s, [])
         | Some pending \<Rightarrow>
             (s\<lparr> m_pendingRename := AList.delete ieee (m_pendingRename s) \<rparr>,
              [CmdResult
                 (if friendly \<noteq> [] \<and> friendly = pr_targetName pending
                  then cmdResponse (pr_cmdId pending) (now env) Success []
                  else cmdResponse (pr_cmdId pending) (now env) Failure ''Rename not applied'')]))"

subsection \<open>bridge/state\<close>

definition lastSeenOptions :: json where
  "lastSeenOptions =
     JObj [(''options'', JObj [(''advanced'', JObj [(''last_seen'', JStr ''epoch'')])])]"

definition handleBridgeTopic ::
  "Env \<Rightarrow> string \<Rightarrow> Message \<Rightarrow> Z2mAdapter \<Rightarrow> Z2mAdapter \<times> Effect list" where
  "handleBridgeTopic env suffix msg s =
     (let payloadText = toLower (trimmed (msg_text msg)) in
      if suffix = ''bridge/state''
         \<and> (payloadText = ''{\"state\":\"offline\"}'' \<or> payloadText = ''offline'') then
        updateConnectionState (s\<lparr> m_bridgeOnline := False \<rparr>)
      else if suffix = ''bridge/state''
         \<and> (payloadText = ''{\"state\":\"online\"}'' \<or> payloadText = ''online'') then
        (case updateConnectionState (s\<lparr> m_bridgeOnline := True \<rparr>) of
           (s1, es) \<Rightarrow>
             if \<not> m_lastSeenRequested s1
             then (s1\<lparr> m_lastSeenRequested := True \<rparr>,
                   es @ [Publish (m_baseTopic s1 @ ''/bridge/request/options'') lastSeenOptions])
             else (s1, es))
      else if suffix = ''bridge/health'' then
        (case docObject msg of
           None \<Rightarrow> (s, [])
         | Some obj \<Rightarrow> (s, [AdapterMetaUpdated (jinsert ''health'' (JObj obj) [])]))
      else if suffix = ''bridge/response/device/rename'' then
        (case docObject msg of
           None \<Rightarrow> (s, [])
         | Some resp \<Rightarrow> handleRenameResponse env resp s)
      else if suffix = ''bridge/response/options'' then (s, [])
      else if suffix = ''bridge/response/device/get'' then
        (case docObject msg of
           None \<Rightarrow> (s, [])
         | Some resp \<Rightarrow> handleDeviceGetResponse env resp s)
      else if suffix = ''bridge/info'' then
        (case docObject msg of
           None \<Rightarrow> (s, [])
         | Some obj \<Rightarrow> handleBridgeInfoPayload obj (now env) s)
      else if suffix = ''bridge/devices'' \<or> suffix = ''bridge/response/devices'' then
        (case msg_doc msg of
           None \<Rightarrow> (s, [])
         | Some doc \<Rightarrow>
             if devicesOfDoc doc = [] then (s, [])
             else handleBridgeDevicesPayload env (devicesOfDoc doc) (suffix = ''bridge/devices'') s)
      else (s, []))"

subsection \<open>handleMqttMessage\<close>

fun indexOf :: "char \<Rightarrow> string \<Rightarrow> nat option" where
  "indexOf c [] = None"
| "indexOf c (x # xs) = (if x = c then Some 0 else map_option Suc (indexOf c xs))"

definition availabilityText :: "Message \<Rightarrow> string" where
  "availabilityText msg =
     (let payloadText = trimmed (msg_text msg) in
      if startsWith payloadText ''{'' then
        (case docObject msg of
           Some obj \<Rightarrow> toStringOr payloadText (jvalue obj ''state'')
         | None \<Rightarrow> payloadText)
      else payloadText)"

definition handleMqttMessage ::
  "Env \<Rightarrow> Message \<Rightarrow> string \<Rightarrow> Z2mAdapter \<Rightarrow> Z2mAdapter \<times> Effect list" where
  "handleMqttMessage env msg topic s =
     (let prefix = m_baseTopic s @ ''/'' in
      if \<not> startsWith topic prefix then (s, [])
      else
        let suffix = drop (length prefix) topic in
        if startsWith suffix ''bridge/'' then handleBridgeTopic env suffix msg s
        else if endsWith suffix ''/availability'' then
          (case indexOf CHR ''/'' suffix of
             None \<Rightarrow> (s, [])
           | Some slashIndex \<Rightarrow>
               if slashIndex = 0 then (s, [])
               else handleAvailabilityPayload (take slashIndex suffix) (availabilityText msg)
                      (now env) s)
        else if endsWith suffix ''/get'' \<or> endsWith suffix ''/set'' then (s, [])
        else if CHR ''/'' \<in> set suffix then (s, [])
        else
          (case docObject msg of
             None \<Rightarrow> (s, [])
           | Some obj \<Rightarrow> handleDeviceStatePayload env suffix obj (now env) s))"

section \<open>Lifecycle and host calls\<close>

definition kDefaultPort :: int where "kDefaultPort = 1883"

definition adapterPort :: "Z2mAdapter \<Rightarrow> int" where
  "adapterPort s = (if ad_port (adapter s) > 0 then ad_port (adapter s) else kDefaultPort)"

definition applyConfig :: "Z2mAdapter \<Rightarrow> Z2mAdapter \<times> Effect list" where
  "applyConfig s =
     (let retry = toIntOr 10000 (jvalue (ad_meta (adapter s)) ''retryIntervalMs'');
          baseTopic0 = trimmed (toString (jvalue (ad_meta (adapter s)) ''baseTopic''));
          baseTopic1 = (if baseTopic0 \<noteq> [] then baseTopic0 else ''zigbee2mqtt'');
          baseTopic = (if endsWith baseTopic1 ''/'' then butlast baseTopic1 else baseTopic1);
          s1 = s\<lparr> m_retryIntervalMs := (if retry \<ge> 1000 then retry else 10000),
                   m_baseTopic := baseTopic \<rparr>;
          ip = trimmed (ad_ip (adapter s))
      in if m_client s1 = None then (s1, [])
         else (s1, (if ip \<noteq> [] then [ClientSetHostname ip] else [])
                   @ [ClientSetPort (adapterPort s1),
                      ClientSetUsername (trimmed (ad_user (adapter s1))),
                      ClientSetPassword (ad_pw (adapter s1))]))"

definition connectToBroker :: "Z2mAdapter \<Rightarrow> Z2mAdapter \<times> Effect list" where
  "connectToBroker s =
     (if m_client s = None then (s, [])
      else if clientBusy s then (s, [])
      else if trimmed (ad_ip (adapter s)) = [] then (s, [])
      else (s, [ClientSetHostname (trimmed (ad_ip (adapter s))), ClientSetPort (adapterPort s),
                ConnectToHost]))"

definition disconnectFromBroker :: "Z2mAdapter \<Rightarrow> Z2mAdapter \<times> Effect list" where
  "disconnectFromBroker s =
     (if m_client s = None then (s, [])
      else if clientBusy s then (s, [DisconnectFromHost])
      else (s, []))"

definition scheduleReconnect :: "Z2mAdapter \<Rightarrow> Z2mAdapter \<times> Effect list" where
  "scheduleReconnect s =
     (if m_retryIntervalMs s \<le> 0 then (s, [])
      else if m_reconnectTimer s = Some True then (s, [])
      else (s\<lparr> m_reconnectTimer := Some True \<rparr>, [ReconnectTimerStarted (m_retryIntervalMs s)]))"

definition ensureSubscriptions :: "Z2mAdapter \<Rightarrow> Z2mAdapter \<times> Effect list" where
  "ensureSubscriptions s =
     (if \<not> clientConnected s then (s, []) else (s, [Subscribe (m_baseTopic s @ ''/#'')]))"

text \<open>Sequencing of two handlers: the second runs on the state the first leaves.\<close>

definition andThen ::
  "(Z2mAdapter \<Rightarrow> Z2mAdapter \<times> Effect list) \<Rightarrow> (Z2mAdapter \<Rightarrow> Z2mAdapter \<times> Effect list) \<Rightarrow>
   Z2mAdapter \<Rightarrow> Z2mAdapter \<times> Effect list" where
  "andThen f g s = (case f s of (s1, es1) \<Rightarrow> (case g s1 of (s2, es2) \<Rightarrow> (s2, es1 @ es2)))"

definition setField :: "(Z2mAdapter \<Rightarrow> Z2mAdapter) \<Rightarrow> Z2mAdapter \<Rightarrow> Z2mAdapter \<times> Effect list" where
  "setField f s = (f s, [])"

definition createClient :: "Z2mAdapter \<Rightarrow> Z2mAdapter \<times> Effect list" where
  "createClient s =
     (if m_client s = None
      then (s\<lparr> m_client := Some StateDisconnected \<rparr>,
            [ClientSetClientId (''phi-core-z2m-'' @ ad_id (adapter s))])
      else (s, []))"

definition start :: "Z2mAdapter \<Rightarrow> Z2mAdapter \<times> Effect list" where
  "start =
     andThen (setField (\<lambda>s. s\<lparr> m_pendingFullSync := False \<rparr>))
       (andThen applyConfig (andThen createClient connectToBroker))"

definition stopRefreshTimers :: "Z2mAdapter \<Rightarrow> Z2mAdapter \<times> Effect list" where
  "stopRefreshTimers s =
     (s\<lparr> m_postSetRefreshTimers := [] \<rparr>,
      (if m_postSetRefreshTimers s \<noteq> [] then [PostSetRefreshTimersStopped] else []))"

definition stop :: "Z2mAdapter \<Rightarrow> Z2mAdapter \<times> Effect list" where
  "stop =
     andThen stopReconnectTimer
       (andThen disconnectFromBroker
          (andThen stopRefreshTimers
             (andThen (setField (\<lambda>s. s\<lparr> m_client := None, m_mqttConnected := False \<rparr>))
                updateConnectionState)))"

text \<open>The host stores the new \<open>Adapter\<close> record before it calls \<open>adapterConfigUpdated\<close>.\<close>

definition adapterConfigUpdated :: "AdapterInfo \<Rightarrow> Z2mAdapter \<Rightarrow> Z2mAdapter \<times> Effect list" where
  "adapterConfigUpdated info =
     andThen (setField (\<lambda>s. s\<lparr> adapter := info \<rparr>))
       (andThen disconnectFromBroker (andThen applyConfig connectToBroker))"

subsection \<open>Signals of the client\<close>

definition onConnected :: "Z2mAdapter \<Rightarrow> Z2mAdapter \<times> Effect list" where
  "onConnected =
     andThen (setField (\<lambda>s. s\<lparr> m_mqttConnected := True \<rparr>))
       (andThen updateConnectionState
          (andThen ensureSubscriptions
             (\<lambda>s. (s, [Publish (m_baseTopic s @ ''/bridge/request/info'') (JObj [])]))))"

definition onDisconnected :: "Z2mAdapter \<Rightarrow> Z2mAdapter \<times> Effect list" where
  "onDisconnected =
     andThen (setField (\<lambda>s. s\<lparr> m_mqttConnected := False \<rparr>))
       (andThen updateConnectionState scheduleReconnect)"

subsection \<open>Rename and adapter actions\<close>

definition updateDeviceName ::
  "Env \<Rightarrow> string \<Rightarrow> string \<Rightarrow> CmdId \<Rightarrow> Z2mAdapter \<Rightarrow> Z2mAdapter \<times> Effect list" where
  "updateDeviceName env deviceId name cmdId s =
     (let trimmedName = trimmed name;
          mqttId = resolveMqttId s deviceId
      in if trimmedName = [] then
           (s, [CmdResult (cmdResponse cmdId (now env) InvalidArgument ''Name must not be empty'')])
         else if mqttId = [] then
           (s, [CmdResult (cmdResponse cmdId (now env) NotSupported ''Unknown device'')])
         else if map_of (m_pendingRename s) deviceId \<noteq> None then
           (s, [CmdResult (cmdResponse cmdId (now env) TemporarilyOffline ''Rename already pending'')])
         else if \<not> m_connected s \<or> \<not> clientConnected s then
           (s, [CmdResult (cmdResponse cmdId (now env) TemporarilyOffline
                             ''MQTT broker not connected'')])
         else
           let topic = m_baseTopic s @ ''/bridge/request/device/rename'';
               payload = JObj (jinsert ''to'' (JStr trimmedName) (jinsert ''from'' (JStr mqttId) []))
           in if publishResult env topic payload < 0 then
                (s, [Publish topic payload,
                     CmdResult (cmdResponse cmdId (now env) Failure ''MQTT publish failed.'')])
              else
                (s\<lparr> m_pendingRename :=
                      AList.update deviceId
                        \<lparr> pr_cmdId = cmdId, pr_targetName = trimmedName,
                          pr_requestedAtMs = now env \<rparr> (m_pendingRename s) \<rparr>,
                 [Publish topic payload, RenameTimeoutScheduled deviceId]))"

text \<open>The lambda of the 10 s single-shot timer of a rename.\<close>

definition renameTimeout :: "Env \<Rightarrow> string \<Rightarrow> Z2mAdapter \<Rightarrow> Z2mAdapter \<times> Effect list" where
  "renameTimeout env deviceId s =
     (case map_of (m_pendingRename s) deviceId of
        None \<Rightarrow> (s, [])
      | Some pending \<Rightarrow>
          (s\<lparr> m_pendingRename := AList.delete deviceId (m_pendingRename s) \<rparr>,
           [CmdResult (cmdResponse (pr_cmdId pending) (now env) Failure ''Rename timeout'')]))"

definition actionResponse :: "CmdId \<Rightarrow> int \<Rightarrow> CmdStatus \<Rightarrow> string \<Rightarrow> ActionResponse" where
  "actionResponse cmdId ts st err = \<lparr> a_id = cmdId, a_status = st, a_error = err, a_tsMs = ts \<rparr>"

text \<open>\<open>AdapterInterface::invokeAdapterAction\<close>, which handles the other action ids.\<close>

definition baseInvokeAdapterAction ::
  "Env \<Rightarrow> string \<Rightarrow> jobject \<Rightarrow> CmdId \<Rightarrow> Z2mAdapter \<Rightarrow> Z2mAdapter \<times> Effect list" where
  "baseInvokeAdapterAction env actionId params cmdId s =
     (if actionId = ''settings'' then
        (s, AdapterMetaUpdated params
            # (if cmdId = 0 then []
               else [ActionResult (actionResponse cmdId (now env) Success [])]))
      else if cmdId = 0 then (s, [])
      else (s, [ActionResult (actionResponse cmdId (now env) NotImplemented
                                ''AdapterInterface action not supported'')]))"

definition invokeAdapterAction ::
  "Env \<Rightarrow> string \<Rightarrow> jobject \<Rightarrow> CmdId \<Rightarrow> Z2mAdapter \<Rightarrow> Z2mAdapter \<times> Effect list" where
  "invokeAdapterAction env actionId params cmdId s =
     (if actionId \<noteq> ''permitJoin'' \<and> actionId \<noteq> ''restartZ2M''
      then baseInvokeAdapterAction env actionId params cmdId s
      else if \<not> clientConnected s then
        (s, [ActionResult (actionResponse cmdId (now env) Failure ''MQTT client not connected.'')])
      else if \<not> m_bridgeOnline s then
        (s, [ActionResult (actionResponse cmdId (now env) Failure ''Z2M bridge is offline.'')])
      else
        let topic = (if actionId = ''restartZ2M'' then m_baseTopic s @ ''/bridge/request/restart''
                     else m_baseTopic s @ ''/bridge/request/permit_join'');
            payload = (if actionId = ''restartZ2M'' then JObj []
                       else JObj (jinsert ''time'' (JNum 120) (jinsert ''value'' (JBool True) [])))
        in if publishResult env topic payload < 0 then
             (s, [Publish topic payload,
                  ActionResult (actionResponse cmdId (now env) Failure ''MQTT publish failed.'')])
           else (s, [Publish topic payload,
                     ActionResult (actionResponse cmdId (now env) Success [])]))"

text \<open>The lambda queued by \<open>QTimer::singleShot(0, ...)\<close> for the default availability.\<close>

definition availabilityDefault ::
  "Env \<Rightarrow> string \<Rightarrow> int \<Rightarrow> string \<Rightarrow> string \<Rightarrow> Z2mAdapter \<Rightarrow> Z2mAdapter \<times> Effect list" where
  "availabilityDefault env availability lastSeenMs externalId channelId s =
     (let st = toLower availability in
      if st = [] then
        (if lastSeenMs > 0 then
           (s, [ChannelStateUpdated externalId channelId
                  (VInt (connectivityInt (if now env - lastSeenMs > kStaleThresholdMs
                                          then Disconnected else Connected))) (now env)])
         else (s, []))
      else
        (s, [ChannelStateUpdated externalId channelId
               (VInt (connectivityInt (if st = ''online'' then Connected
                                       else if st = ''offline'' then Disconnected
                                       else StatusUnknown))) (now env)]))"

section \<open>The adapter as a transition system\<close>

text \<open>
  Everything that can happen to the adapter: the calls of the host, the signals of the
  MQTT client, a change of the state the client reports, and the timers going off. The
  signals come from the client object and reach the adapter only while it has one.
\<close>

datatype Input =
    Start
  | Stop
  | AdapterConfigUpdated AdapterInfo
  | RequestFullSync
  | UpdateChannelState string string CmdValue CmdId
  | UpdateDeviceName string string CmdId
  | InvokeAdapterAction string jobject CmdId
  | ClientStateChanged MqttState
  | ClientConnected
  | ClientDisconnected
  | ClientError
  | MessageReceived Message string
  | ReconnectTimeout
  | PostSetRefreshTimeout string
  | RenameTimeout string
  | AvailabilityDefaultTimeout string int string string

definition step :: "Env \<Rightarrow> Input \<Rightarrow> Z2mAdapter \<Rightarrow> Z2mAdapter \<times> Effect list" where
  "step env input s =
     (case input of
        Start \<Rightarrow> start s
      | Stop \<Rightarrow> stop s
      | AdapterConfigUpdated info \<Rightarrow> adapterConfigUpdated info s
      | RequestFullSync \<Rightarrow> requestFullSync env s
      | UpdateChannelState deviceExternalId channelExternalId v cmdId \<Rightarrow>
          updateChannelState env deviceExternalId channelExternalId v cmdId s
      | UpdateDeviceName deviceId name cmdId \<Rightarrow> updateDeviceName env deviceId name cmdId s
      | InvokeAdapterAction actionId params cmdId \<Rightarrow>
          invokeAdapterAction env actionId params cmdId s
      | ClientStateChanged st \<Rightarrow>
          (if m_client s = None then (s, []) else (s\<lparr> m_client := Some st \<rparr>, []))
      | ClientConnected \<Rightarrow> (if m_client s = None then (s, []) else onConnected s)
      | ClientDisconnected \<Rightarrow> (if m_client s = None then (s, []) else onDisconnected s)
      | ClientError \<Rightarrow> (s, [])
      | MessageReceived msg topic \<Rightarrow>
          (if m_client s = None then (s, []) else handleMqttMessage env msg topic s)
      | ReconnectTimeout \<Rightarrow> connectToBroker s
      | PostSetRefreshTimeout mqttId \<Rightarrow> postSetRefreshTimeout env mqttId s
      | RenameTimeout deviceId \<Rightarrow> renameTimeout env deviceId s
      | AvailabilityDefaultTimeout availability lastSeenMs externalId channelId \<Rightarrow>
          availabilityDefault env availability lastSeenMs externalId channelId s)"

text \<open>A run from the initial state: each input comes with the environment of its call.\<close>

fun run :: "(Env \<times> Input) list \<Rightarrow> Z2mAdapter \<Rightarrow> Z2mAdapter \<times> Effect list" where
  "run [] s = (s, [])"
| "run ((env, input) # rest) s =
     (case step env input s of
        (s1, es1) \<Rightarrow> (case run rest s1 of (s2, es2) \<Rightarrow> (s2, es1 @ es2)))"

definition reachable :: "Z2mAdapter \<Rightarrow> bool" where
  "reachable s = (\<exists>info trace. s = fst (run trace (initialAdapter info)))"

section \<open>Sample values for the worked examples\<close>

text \<open>
  An environment in which every publish succeeds with message id 1, and the bulb of the
  specification's scenario S1: external id \<open>0x00:ieee\<close>, friendly name \<open>bulb1\<close>, one
  writable \<open>state\<close> channel.
\<close>

definition sampleEnv :: Env where
  "sampleEnv = \<lparr> now = 1700000000000, publishResult = (\<lambda>topic payload. 1),
     fromIsoDate = (\<lambda>s. None), numberF0 = (\<lambda>r. number \<lfloor>r + 1 / 2\<rfloor>),
     strToInt = decimalToInt \<rparr>"

definition failingEnv :: Env where
  "failingEnv = sampleEnv\<lparr>publishResult := (\<lambda>topic payload. - 1)\<rparr>"

definition sampleInfo :: AdapterInfo where
  "sampleInfo = \<lparr> ad_id = ''z2m'', ad_ip = ''192.0.2.1'', ad_port = 1883, ad_user = [],
     ad_pw = [], ad_meta = [] \<rparr>"

definition bulbBinding :: Z2mChannelBinding where
  "bulbBinding = newBinding\<lparr> b_channelId := ''state'', b_property := ''state'',
     b_kind := PowerOnOff, b_dataType := TypeBool, b_flags := 0x0F,
     b_valueOn := ''ON'', b_valueOff := ''OFF'' \<rparr>"

definition connectivityBinding :: Z2mChannelBinding where
  "connectivityBinding = newBinding\<lparr> b_channelId := ''connectivity'',
     b_property := ''availability'', b_kind := ConnectivityStatusKind, b_dataType := TypeEnum,
     b_flags := 0x0D, b_isAvailability := True \<rparr>"

definition colorBinding :: Z2mChannelBinding where
  "colorBinding = newBinding\<lparr> b_channelId := ''color'', b_property := ''color'',
     b_kind := ColorRGB, b_dataType := TypeColor, b_flags := 0x0F, b_colorMode := ''xy'' \<rparr>"

definition bulbEntry :: Z2mDeviceEntry where
  "bulbEntry = \<lparr> e_device = newDevice\<lparr> d_name := ''bulb1'', d_id := ''0x00:ieee'' \<rparr>,
     e_mqttId = ''bulb1'', e_channels = [],
     e_bindingsByChannel = [(''state'', bulbBinding), (''color'', colorBinding),
                            (''connectivity'', connectivityBinding)],
     e_channelByProperty = [] \<rparr>"

definition bulbAdapter :: Z2mAdapter where
  "bulbAdapter = (initialAdapter sampleInfo)\<lparr> m_client := Some StateConnected,
     m_connected := True, m_mqttConnected := True,
     m_devices := [(''bulb1'', bulbEntry)], m_mqttByExternal := [(''0x00:ieee'', ''bulb1'')] \<rparr>"

definition cmdBool :: "bool \<Rightarrow> CmdValue" where
  "cmdBool b = \<lparr> v_typeId = MetaOther, v_toInt = (if b then 1 else 0),
     v_toDouble = (if b then 1 else 0), v_toBool = b,
     v_toString = (if b then ''true'' else ''false''), v_toColor = None \<rparr>"




section \<open>Brightness scaling\<close>







section \<open>Stable enum map\<close>

















lemma assignNew_outside:
  "map_of m k = None \<Longrightarrow> k \<notin> set ks \<or> k = [] \<Longrightarrow>
   map_of (fst (assignNew ks (m, mx))) k = None"
proof (induction ks arbitrary: m mx)
  case Nil
  then show ?case by simp
next
  case (Cons a ks)
  have r: "k \<notin> set ks \<or> k = []" using Cons.prems(2) by auto
  show ?case
  proof (cases "a = [] \<or> map_of m a \<noteq> None")
    case True
    have "map_of (fst (assignNew ks (m, mx))) k = None"
      using Cons.prems(1) r by (rule Cons.IH)
    then show ?thesis using True by auto
  next
    case False
    then have "k \<noteq> a" using Cons.prems(2) by auto
    then have "map_of (AList.update a (mx + 1) m) k = None"
      using Cons.prems(1) by (simp add: update_conv')
    then have "map_of (fst (assignNew ks (AList.update a (mx + 1) m, mx + 1))) k = None"
      using r by (rule Cons.IH)
    then show ?thesis using False by simp
  qed
qed



lemma toInt_of_int:
  "INT_MIN \<le> v \<Longrightarrow> v \<le> INT_MAX \<Longrightarrow> toInt (JNum (of_int v)) = v"
  by simp







section \<open>Properties of the command pipeline\<close>

lemmas sample_defs = sampleEnv_def failingEnv_def sampleInfo_def bulbBinding_def
  connectivityBinding_def colorBinding_def bulbEntry_def bulbAdapter_def cmdBool_def
  initialAdapter_def newBinding_def newDevice_def

lemmas command_defs = updateChannelState_def resolveMqttId_def testFlag_def
  ChannelFlagWritable_def clientConnected_def buildCommandPayload_def publishCommand_def
  commandTopic_def jinsert_def cmdResponse_def Let_def

lemma bulb_on:
  "updateChannelState sampleEnv ''0x00:ieee'' ''state'' (cmdBool True) 7 bulbAdapter =
     (bulbAdapter\<lparr>m_postSetRefreshTimers := [''bulb1'']\<rparr>,
      [Publish ''zigbee2mqtt/bulb1/set'' (JObj [(''state'', JStr ''ON'')]),
       PostSetRefreshTimerStarted ''bulb1'',
       CmdResult \<lparr> r_id = 7, r_status = Success, r_error = [], r_tsMs = 1700000000000 \<rparr>])"
  by (simp add: command_defs sample_defs)

lemma bulb_offline:
  "updateChannelState sampleEnv ''0x00:ieee'' ''state'' (cmdBool True) 8
       (bulbAdapter\<lparr>m_bridgeOnline := False, m_connected := False\<rparr>) =
     (bulbAdapter\<lparr>m_bridgeOnline := False, m_connected := False\<rparr>,
      [CmdResult \<lparr> r_id = 8, r_status = TemporarilyOffline,
                   r_error = ''MQTT broker not connected'', r_tsMs = 1700000000000 \<rparr>])"
  by (simp add: command_defs sample_defs)

lemma bulb_publish_fails:
  "snd (updateChannelState failingEnv ''0x00:ieee'' ''state'' (cmdBool False) 9 bulbAdapter) =
     [Publish ''zigbee2mqtt/bulb1/set'' (JObj [(''state'', JStr ''OFF'')]),
      CmdResult \<lparr> r_id = 9, r_status = Failure, r_error = ''MQTT publish failed.'',
                   r_tsMs = 1700000000000 \<rparr>]"
  by (simp add: command_defs sample_defs)

lemma bulb_bad_color:
  "snd (updateChannelState sampleEnv ''0x00:ieee'' ''color'' (cmdBool True) 10 bulbAdapter) =
     [CmdResult \<lparr> r_id = 10, r_status = InvalidArgument, r_error = ''Invalid color value.'',
                   r_tsMs = 1700000000000 \<rparr>]"
  by (simp add: command_defs sample_defs)

lemma bulb_read_only:
  "snd (updateChannelState sampleEnv ''0x00:ieee'' ''connectivity'' (cmdBool True) 11 bulbAdapter) =
     [CmdResult \<lparr> r_id = 11, r_status = NotSupported, r_error = ''Channel is read-only'',
                   r_tsMs = 1700000000000 \<rparr>]"
  by (simp add: command_defs sample_defs)

lemma bulb_unknown_channel:
  "snd (updateChannelState sampleEnv ''0x00:ieee'' ''volume'' (cmdBool True) 12 bulbAdapter) =
     [CmdResult \<lparr> r_id = 12, r_status = NotSupported, r_error = ''Unknown channel'',
                   r_tsMs = 1700000000000 \<rparr>]"
  by (simp add: command_defs sample_defs)

lemma bulb_unknown_device:
  "snd (updateChannelState sampleEnv ''0x99'' ''state'' (cmdBool True) 13 bulbAdapter) =
     [CmdResult \<lparr> r_id = 13, r_status = NotSupported, r_error = ''Unknown device'',
                   r_tsMs = 1700000000000 \<rparr>]"
  by (simp add: command_defs sample_defs)

text \<open>
  Claim C1. Every call of \<open>updateChannelState\<close> emits exactly one \<open>cmdResult\<close>; its id is
  \<open>cmdId\<close> and its status is the one of the first failing check in the order device,
  binding, writable flag, connection, encoding, publish, and \<open>Success\<close> when none fails.
\<close>

theorem C1_first_failing_check:
  "\<exists>r. filter isCmdResult (snd (updateChannelState env deviceExternalId channelExternalId v cmdId s)) =
          [CmdResult r] \<and>
        r_id r = cmdId \<and>
        r_status r = expectedCmdStatus env deviceExternalId channelExternalId v s"
  by (simp add: updateChannelState_def expectedCmdStatus_def deviceResolvable_def bindingOf_def
      adapterConnected_def publishFails_def publishCommand_def clientConnected_def Let_def
      cmdResponse_def split: option.splits sum.splits prod.splits)

theorem C1_first_failing_check_witness:
  "expectedCmdStatus sampleEnv ''0x00:ieee'' ''state'' (cmdBool True) bulbAdapter = Success \<and>
   expectedCmdStatus sampleEnv ''0x00:ieee'' ''state'' (cmdBool True)
     (bulbAdapter\<lparr>m_bridgeOnline := False, m_connected := False\<rparr>) = TemporarilyOffline \<and>
   expectedCmdStatus failingEnv ''0x00:ieee'' ''state'' (cmdBool False) bulbAdapter = Failure \<and>
   expectedCmdStatus sampleEnv ''0x00:ieee'' ''color'' (cmdBool True) bulbAdapter = InvalidArgument \<and>
   expectedCmdStatus sampleEnv ''0x00:ieee'' ''connectivity'' (cmdBool True) bulbAdapter = NotSupported \<and>
   expectedCmdStatus sampleEnv ''0x00:ieee'' ''volume'' (cmdBool True) bulbAdapter = NotSupported \<and>
   expectedCmdStatus sampleEnv ''0x99'' ''state'' (cmdBool True) bulbAdapter = NotSupported"
proof -
  have 1: "expectedCmdStatus sampleEnv ''0x00:ieee'' ''state'' (cmdBool True) bulbAdapter = Success"
    using C1_first_failing_check [of sampleEnv "''0x00:ieee''" "''state''" "cmdBool True" 7 bulbAdapter]
    by (auto simp: bulb_on)
  have 2: "expectedCmdStatus sampleEnv ''0x00:ieee'' ''state'' (cmdBool True)
     (bulbAdapter\<lparr>m_bridgeOnline := False, m_connected := False\<rparr>) = TemporarilyOffline"
    using C1_first_failing_check [of sampleEnv "''0x00:ieee''" "''state''" "cmdBool True" 8
        "bulbAdapter\<lparr>m_bridgeOnline := False, m_connected := False\<rparr>"]
    by (auto simp: bulb_offline)
  have 3: "expectedCmdStatus failingEnv ''0x00:ieee'' ''state'' (cmdBool False) bulbAdapter = Failure"
    using C1_first_failing_check [of failingEnv "''0x00:ieee''" "''state''" "cmdBool False" 9 bulbAdapter]
    by (auto simp: bulb_publish_fails)
  have 4: "expectedCmdStatus sampleEnv ''0x00:ieee'' ''color'' (cmdBool True) bulbAdapter = InvalidArgument"
    using C1_first_failing_check [of sampleEnv "''0x00:ieee''" "''color''" "cmdBool True" 10 bulbAdapter]
    by (auto simp: bulb_bad_color)
  have 5: "expectedCmdStatus sampleEnv ''0x00:ieee'' ''connectivity'' (cmdBool True) bulbAdapter = NotSupported"
    using C1_first_failing_check [of sampleEnv "''0x00:ieee''" "''connectivity''" "cmdBool True" 11 bulbAdapter]
    by (auto simp: bulb_read_only)
  have 6: "expectedCmdStatus sampleEnv ''0x00:ieee'' ''volume'' (cmdBool True) bulbAdapter = NotSupported"
    using C1_first_failing_check [of sampleEnv "''0x00:ieee''" "''volume''" "cmdBool True" 12 bulbAdapter]
    by (auto simp: bulb_unknown_channel)
  have 7: "expectedCmdStatus sampleEnv ''0x99'' ''state'' (cmdBool True) bulbAdapter = NotSupported"
    using C1_first_failing_check [of sampleEnv "''0x99''" "''state''" "cmdBool True" 13 bulbAdapter]
    by (auto simp: bulb_unknown_device)
  show ?thesis using 1 2 3 4 5 6 7 by simp
qed

text \<open>
  Claim C8. A call of \<open>updateChannelState\<close> emits no \<open>channelStateUpdated\<close>: each of its
  effects is a \<open>cmdResult\<close>, a publish on the client or the start of the post-set refresh
  timer, and the timer's callback only publishes.
\<close>

theorem C8_no_local_state_update:
  "filter isChannelStateUpdated
     (snd (updateChannelState env deviceExternalId channelExternalId v cmdId s)) = [] \<and>
   list_all (\<lambda>e. isCmdResult e \<or> isPublish e \<or> isTimerStart e)
     (snd (updateChannelState env deviceExternalId channelExternalId v cmdId s)) \<and>
   list_all isPublish (snd (postSetRefreshTimeout env mqttId s'))"
  by (simp add: updateChannelState_def publishCommand_def postSetRefreshTimeout_def Let_def
      split: option.splits sum.splits prod.splits)

theorem C8_no_local_state_update_witness:
  "filter isChannelStateUpdated
     (snd (updateChannelState sampleEnv ''0x00:ieee'' ''state'' (cmdBool True) 7 bulbAdapter)) = [] \<and>
   snd (updateChannelState sampleEnv ''0x00:ieee'' ''state'' (cmdBool True) 7 bulbAdapter) =
     [Publish ''zigbee2mqtt/bulb1/set'' (JObj [(''state'', JStr ''ON'')]),
      PostSetRefreshTimerStarted ''bulb1'',
      CmdResult \<lparr> r_id = 7, r_status = Success, r_error = [], r_tsMs = 1700000000000 \<rparr>] \<and>
   snd (postSetRefreshTimeout sampleEnv ''bulb1'' bulbAdapter) =
     [Publish ''zigbee2mqtt/bulb1/get'' (JObj [])]"
proof -
  have p: "snd (postSetRefreshTimeout sampleEnv ''bulb1'' bulbAdapter) =
     [Publish ''zigbee2mqtt/bulb1/get'' (JObj [])]"
    by (simp add: postSetRefreshTimeout_def clientConnected_def sample_defs)
  show ?thesis
    using C8_no_local_state_update [of sampleEnv "''0x00:ieee''" "''state''" "cmdBool True" 7
        bulbAdapter "''bulb1''" bulbAdapter] p
    by (simp add: bulb_on)
qed

text \<open>
  Claim C9. \<open>requestFullSync\<close> emits \<open>deviceUpdated\<close> for every entry of \<open>m_devices\<close>, with
  the entry's device and channel list, whatever the state of the client; it publishes to
  \<open>bridge/request/devices\<close> exactly when the client exists and reports \<open>Connected\<close>.
\<close>

theorem C9_full_sync_emits_all_devices:
  "filter isDeviceUpdated (snd (requestFullSync env s)) =
     map (\<lambda>(k, entry). DeviceUpdated (e_device entry) (e_channels entry)) (m_devices s) \<and>
   filter isPublish (snd (requestFullSync env s)) =
     (if m_client s = Some StateConnected
      then [Publish (m_baseTopic s @ ''/bridge/request/devices'') (JObj [])] else []) \<and>
   m_pendingFullSync (fst (requestFullSync env s)) \<and>
   m_devices (fst (requestFullSync env s)) = m_devices s"
proof -
  let ?f = "\<lambda>(k, entry). DeviceUpdated (e_device entry) (e_channels entry)"
  have a: "filter isDeviceUpdated (map ?f xs) = map ?f xs" for xs :: "(string \<times> Z2mDeviceEntry) list"
    by (induction xs) auto
  have b: "filter isPublish (map ?f xs) = []" for xs :: "(string \<times> Z2mDeviceEntry) list"
    by (induction xs) auto
  show ?thesis
    by (simp add: requestFullSync_def clientConnected_def Let_def a b)
qed

theorem C9_full_sync_emits_all_devices_witness:
  "snd (requestFullSync sampleEnv (bulbAdapter\<lparr>m_client := Some StateDisconnected\<rparr>)) =
     [DeviceUpdated (e_device bulbEntry) (e_channels bulbEntry)] \<and>
   snd (requestFullSync sampleEnv bulbAdapter) =
     [Publish ''zigbee2mqtt/bridge/request/devices'' (JObj []),
      DeviceUpdated (e_device bulbEntry) (e_channels bulbEntry)] \<and>
   filter isDeviceUpdated (snd (requestFullSync sampleEnv (bulbAdapter\<lparr>m_client := None\<rparr>))) =
     [DeviceUpdated (e_device bulbEntry) (e_channels bulbEntry)]"
proof -
  have 1: "snd (requestFullSync sampleEnv (bulbAdapter\<lparr>m_client := Some StateDisconnected\<rparr>)) =
     [DeviceUpdated (e_device bulbEntry) (e_channels bulbEntry)]"
    by (simp add: requestFullSync_def clientConnected_def bulbAdapter_def initialAdapter_def Let_def)
  have 2: "snd (requestFullSync sampleEnv bulbAdapter) =
     [Publish ''zigbee2mqtt/bridge/request/devices'' (JObj []),
      DeviceUpdated (e_device bulbEntry) (e_channels bulbEntry)]"
    by (simp add: requestFullSync_def clientConnected_def bulbAdapter_def initialAdapter_def Let_def)
  have 3: "filter isDeviceUpdated (snd (requestFullSync sampleEnv (bulbAdapter\<lparr>m_client := None\<rparr>))) =
     [DeviceUpdated (e_device bulbEntry) (e_channels bulbEntry)]"
    using C9_full_sync_emits_all_devices [of sampleEnv "bulbAdapter\<lparr>m_client := None\<rparr>"]
    by (simp add: bulbAdapter_def initialAdapter_def)
  show ?thesis using 1 2 3 by simp
qed


section \<open>Enum channels\<close>
































end
